theory Spec2Isabelle
  imports Complex_Main
begin

section \<open>Pixel Sprite Generator: the data model\<close>

text \<open>
  The repository holds two revisions of one program: \<^verbatim>\<open>pixel-sprite-generator-v0.0.1.js\<close>
  and the v0.0.2 text that follows the \<^verbatim>\<open>resize\<close> helper in \<^verbatim>\<open>example/resize.js\<close>.
  The methods \<^verbatim>\<open>getData\<close>, \<^verbatim>\<open>setData\<close>, \<^verbatim>\<open>initData\<close>, \<^verbatim>\<open>mirrorX\<close>, \<^verbatim>\<open>mirrorY\<close>,
  \<^verbatim>\<open>applyMask\<close>, \<^verbatim>\<open>generateRandomSample\<close> and \<^verbatim>\<open>generateEdges\<close> are the same text in
  both and are embedded once. \<^verbatim>\<open>Sprite\<close>, \<^verbatim>\<open>init\<close> and \<^verbatim>\<open>renderPixelData\<close> differ and are
  embedded twice, with the suffixes \<open>_v001\<close> and \<open>_v002\<close>. The helper \<^verbatim>\<open>resize\<close> and the
  method \<^verbatim>\<open>toString\<close> take no part in generation and are left out.

  A slot of a JavaScript array holds a value or \<^verbatim>\<open>undefined\<close>: a cell is an \<open>int option\<close>
  and \<open>None\<close> is \<^verbatim>\<open>undefined\<close>. The sprite's \<^verbatim>\<open>data\<close> array is written and read by index only
  (its \<^verbatim>\<open>length\<close> is never read), so it is a total map from indices to cells; a write
  beyond the current end extends a JavaScript array, which the map does as well.
  Widths, heights and coordinates are natural numbers.
\<close>

type_synonym cell = "int option"

record mask =
  width :: nat
  height :: nat
  data :: "int list"
  mirrorX :: bool
  mirrorY :: bool

text \<open>
  The constructor \<^verbatim>\<open>Mask(data, width, height, mirrorX, mirrorY)\<close> stores its arguments;
  an argument \<^verbatim>\<open>mirrorX\<close> or \<^verbatim>\<open>mirrorY\<close> that is \<^verbatim>\<open>undefined\<close> (\<open>None\<close>) becomes \<^verbatim>\<open>true\<close>.
  The source has no \<^verbatim>\<open>throw\<close>: the result type has room for an error, the body has
  no branch that produces one.
\<close>

datatype error = InvalidMaskError

definition Mask :: "int list \<Rightarrow> nat \<Rightarrow> nat \<Rightarrow> bool option \<Rightarrow> bool option \<Rightarrow> error + mask" where
  "Mask d w h mx my =
     Inr \<lparr> mask.width = w, height = h, data = d,
           mirrorX = (case mx of None \<Rightarrow> True | Some v \<Rightarrow> v),
           mirrorY = (case my of None \<Rightarrow> True | Some v \<Rightarrow> v) \<rparr>"

text \<open>Reading \<^verbatim>\<open>mask.data[i]\<close>: beyond the end of the array the value is \<^verbatim>\<open>undefined\<close>.\<close>

definition arrayRead :: "int list \<Rightarrow> nat \<Rightarrow> cell" where
  "arrayRead xs i = (if i < length xs then Some (xs ! i) else None)"

text \<open>
  The sprite object. \<^verbatim>\<open>pixels\<close> is the \<^verbatim>\<open>data\<close> of the \<^verbatim>\<open>ImageData\<close> made by
  \<^verbatim>\<open>createImageData(width, height)\<close>: a \<^verbatim>\<open>Uint8ClampedArray\<close> of fixed length, where a
  write beyond the end is ignored, as \<open>xs[i := v]\<close> ignores it. The canvas and its
  context are the drawing surface and are not modelled.
\<close>

record sprite =
  width :: nat
  height :: nat
  mask :: mask
  data :: "nat \<Rightarrow> cell"
  pixels :: "nat list"

definition getData :: "'a sprite_scheme \<Rightarrow> nat \<Rightarrow> nat \<Rightarrow> cell" where
  "getData this x y = sprite.data this (y * sprite.width this + x)"

definition setData :: "'a sprite_scheme \<Rightarrow> nat \<Rightarrow> nat \<Rightarrow> cell \<Rightarrow> 'a sprite_scheme" where
  "setData this x y v =
     this\<lparr> sprite.data := (sprite.data this)(y * sprite.width this + x := v) \<rparr>"

text \<open>
  Every grid pass of the source is the loop
  \<^verbatim>\<open>for (y = 0; y < h; y++) { for (x = 0; x < w; x++) { body } }\<close>.
\<close>

definition forYX :: "nat \<Rightarrow> nat \<Rightarrow> (nat \<Rightarrow> nat \<Rightarrow> 's \<Rightarrow> 's) \<Rightarrow> 's \<Rightarrow> 's" where
  "forYX h w body s = fold (\<lambda>y. fold (\<lambda>x. body x y) [0..<w]) [0..<h] s"

section \<open>The grid passes\<close>

definition initData :: "'a sprite_scheme \<Rightarrow> 'a sprite_scheme" where
  "initData this =
     forYX (sprite.height this) (sprite.width this)
       (\<lambda>x y t. setData t x y (Some (- 1))) this"

text \<open>
  In \<^verbatim>\<open>mirrorX\<close> the column \<^verbatim>\<open>this.width - x - 1\<close> is computed for
  \<open>x < \<lfloor>width / 2\<rfloor>\<close>, so the subtraction on natural numbers never truncates;
  likewise for the rows of \<^verbatim>\<open>mirrorY\<close>.
\<close>

definition mirrorX :: "'a sprite_scheme \<Rightarrow> 'a sprite_scheme" where
  "mirrorX this =
     forYX (sprite.height this) (sprite.width this div 2)
       (\<lambda>x y t. setData t (sprite.width t - x - 1) y (getData t x y)) this"

definition mirrorY :: "'a sprite_scheme \<Rightarrow> 'a sprite_scheme" where
  "mirrorY this =
     forYX (sprite.height this div 2) (sprite.width this)
       (\<lambda>x y t. setData t x (sprite.height t - y - 1) (getData t x y)) this"

definition applyMask :: "'a sprite_scheme \<Rightarrow> 'a sprite_scheme" where
  "applyMask this =
     (let h = mask.height (mask this); w = mask.width (mask this)
      in forYX h w
           (\<lambda>x y t. setData t x y (arrayRead (mask.data (mask t)) (y * w + x))) this)"

text \<open>
  \<^verbatim>\<open>Math.random()\<close> is the ambient random source. It is made explicit as the sequence
  of the numbers it will return; a call takes the head and leaves the rest. The numbers
  are doubles in \<open>[0, 1)\<close>; every double is a real number, and the two tests of the
  sampling pass (\<^verbatim>\<open>Math.round(r)\<close> and \<^verbatim>\<open>r > 0.5\<close>) are exact on it.
\<close>

type_synonym rng = "nat \<Rightarrow> real"

definition Math_random :: "rng \<Rightarrow> real \<times> rng" where
  "Math_random g = (g 0, \<lambda>n. g (Suc n))"

definition Math_round :: "real \<Rightarrow> int" where
  "Math_round r = \<lfloor>r + 1 / 2\<rfloor>"

definition sampleStep :: "nat \<Rightarrow> nat \<Rightarrow> 'a sprite_scheme \<times> rng \<Rightarrow> 'a sprite_scheme \<times> rng" where
  "sampleStep x y = (\<lambda>(this, g).
     let val = getData this x y
     in if val = Some 1 then
          (let (r, g') = Math_random g
           in (setData this x y (Some (1 * Math_round r)), g'))
        else if val = Some 2 then
          (let (r, g') = Math_random g
           in (setData this x y (if r > 1 / 2 then Some 1 else Some (- 1)), g'))
        else (setData this x y val, g))"

definition generateRandomSample :: "'a sprite_scheme \<times> rng \<Rightarrow> 'a sprite_scheme \<times> rng" where
  "generateRandomSample = (\<lambda>(this, g).
     forYX (sprite.height this) (sprite.width this) sampleStep (this, g))"

text \<open>
  The test \<^verbatim>\<open>val > 0\<close> of \<^verbatim>\<open>generateEdges\<close>: \<^verbatim>\<open>undefined > 0\<close> is \<^verbatim>\<open>false\<close>.
  The bound checks \<^verbatim>\<open>y - 1 >= 0\<close> and \<^verbatim>\<open>x - 1 >= 0\<close> are computed on integers.
\<close>

definition positive :: "cell \<Rightarrow> bool" where
  "positive v = (case v of None \<Rightarrow> False | Some n \<Rightarrow> n > 0)"

definition edgeStep :: "nat \<Rightarrow> nat \<Rightarrow> 'a sprite_scheme \<Rightarrow> 'a sprite_scheme" where
  "edgeStep x y this =
     (if positive (getData this x y) then
        (let t1 = (if int y - 1 \<ge> 0 \<and> getData this x (y - 1) = Some 0
                   then setData this x (y - 1) (Some (- 1)) else this);
             t2 = (if y + 1 < sprite.height t1 \<and> getData t1 x (y + 1) = Some 0
                   then setData t1 x (y + 1) (Some (- 1)) else t1);
             t3 = (if int x - 1 \<ge> 0 \<and> getData t2 (x - 1) y = Some 0
                   then setData t2 (x - 1) y (Some (- 1)) else t2);
             t4 = (if x + 1 < sprite.width t3 \<and> getData t3 (x + 1) y = Some 0
                   then setData t3 (x + 1) y (Some (- 1)) else t3)
         in t4)
      else this)"

definition generateEdges :: "'a sprite_scheme \<Rightarrow> 'a sprite_scheme" where
  "generateEdges this =
     forYX (sprite.height this) (sprite.width this) edgeStep this"

section \<open>Rendering\<close>

text \<open>
  A number stored into a \<^verbatim>\<open>Uint8ClampedArray\<close> is clamped to \<open>[0, 255]\<close> and rounded to
  the nearest integer, a tie going to the even one.
\<close>

definition toUint8Clamped :: "real \<Rightarrow> nat" where
  "toUint8Clamped v =
     (if v \<le> 0 then 0
      else if v \<ge> 255 then 255
      else (let f = \<lfloor>v\<rfloor>
            in nat (if of_int f + 1 / 2 < v then f + 1
                    else if v < of_int f + 1 / 2 then f
                    else if even f then f else f + 1)))"

subsection \<open>Revision v0.0.1\<close>

definition renderStep_v001 :: "nat \<Rightarrow> nat \<Rightarrow> 'a sprite_scheme \<Rightarrow> 'a sprite_scheme" where
  "renderStep_v001 x y this =
     (let val = getData this x y;
          a = (1 :: real);
          r = (if val = Some (- 1) then 0 else 1 :: real);
          g = (if val = Some (- 1) then 0 else 1 :: real);
          b = (if val = Some (- 1) then 0 else 1 :: real);
          index = (y * sprite.width this + x) * 4
      in this\<lparr> sprite.pixels := (sprite.pixels this)
             [index + 0 := toUint8Clamped (r * 255),
              index + 1 := toUint8Clamped (g * 255),
              index + 2 := toUint8Clamped (b * 255),
              index + 3 := toUint8Clamped (a * 255)] \<rparr>)"

definition renderPixelData_v001 :: "'a sprite_scheme \<Rightarrow> 'a sprite_scheme" where
  "renderPixelData_v001 this =
     forYX (sprite.height this) (sprite.width this) renderStep_v001 this"

subsection \<open>Revision v0.0.2\<close>

text \<open>
  The colour arithmetic of v0.0.2 is arithmetic on doubles; it is modelled on the real
  numbers, without the rounding of each operation, and with \<^verbatim>\<open>NaN\<close> where the renderer can
  meet it. The alpha channel is \<open>0\<close> or \<open>1\<close> times \<open>255\<close> and is exact.

  The colour object \<^verbatim>\<open>{ r, g, b }\<close> of \<^verbatim>\<open>hslToRgb\<close>, extensible by further fields such as the
  \<^verbatim>\<open>a\<close> of the renderer; the fields carry the record's name because single letters are
  wanted for variables.
\<close>

record rgb =
  rgb_r :: real
  rgb_g :: real
  rgb_b :: real

text \<open>The remainder \<^verbatim>\<open>%\<close> of JavaScript takes the sign of the dividend.\<close>

definition jsRem :: "int \<Rightarrow> int \<Rightarrow> int" where
  "jsRem m n = sgn m * (\<bar>m\<bar> mod \<bar>n\<bar>)"

text \<open>
  \<^verbatim>\<open>hslToRgb(h, s, l, result)\<close> on numbers that are not \<^verbatim>\<open>NaN\<close>, with the object \<^verbatim>\<open>result\<close>
  given; the \<^verbatim>\<open>switch\<close> has no \<^verbatim>\<open>default\<close>, so outside the six cases the object is returned
  as it came. Called without \<^verbatim>\<open>result\<close> the method starts from \<^verbatim>\<open>{ r: 0, g: 0, b: 0 }\<close>.
\<close>

definition hslToRgb :: "real \<Rightarrow> real \<Rightarrow> real \<Rightarrow> 'a rgb_scheme \<Rightarrow> 'a rgb_scheme" where
  "hslToRgb h s l result =
     (let i = \<lfloor>h * 6\<rfloor>;
          f = h * 6 - of_int i;
          p = l * (1 - s);
          q = l * (1 - f * s);
          t = l * (1 - (1 - f) * s);
          k = jsRem i 6
      in if k = 0 then result\<lparr> rgb_r := l, rgb_g := t, rgb_b := p \<rparr>
         else if k = 1 then result\<lparr> rgb_r := q, rgb_g := l, rgb_b := p \<rparr>
         else if k = 2 then result\<lparr> rgb_r := p, rgb_g := l, rgb_b := t \<rparr>
         else if k = 3 then result\<lparr> rgb_r := p, rgb_g := q, rgb_b := l \<rparr>
         else if k = 4 then result\<lparr> rgb_r := t, rgb_g := p, rgb_b := l \<rparr>
         else if k = 5 then result\<lparr> rgb_r := l, rgb_g := p, rgb_b := q \<rparr>
         else result)"

definition hslToRgb_noResult :: "real \<Rightarrow> real \<Rightarrow> real \<Rightarrow> rgb" where
  "hslToRgb_noResult h s l = hslToRgb h s l \<lparr> rgb_r = 0, rgb_g = 0, rgb_b = 0 \<rparr>"

text \<open>
  A property of a JavaScript object, as far as this program can tell: it is absent, or it
  is present, writable or not, with a value or with \<^verbatim>\<open>undefined\<close> (\<open>None\<close>). Reading an
  absent property gives \<^verbatim>\<open>undefined\<close>. The source is not strict-mode code: an assignment
  that the object does not accept is dropped without an error. The object accepts the
  assignment to a present property when the property is writable, and to an absent one
  when the object is extensible; the property is then created writable. A frozen object
  is not extensible and none of its properties is writable; a sealed object is not
  extensible and keeps its properties writable. Properties are the object's own data
  properties: accessors, prototypes and proxies are not modelled.
\<close>

datatype 'a property = Absent | Present bool "'a option"

definition readProperty :: "'a property \<Rightarrow> 'a option" where
  "readProperty p = (case p of Absent \<Rightarrow> None | Present w v \<Rightarrow> v)"

definition assignProperty :: "bool \<Rightarrow> 'a property \<Rightarrow> 'a option \<Rightarrow> 'a property" where
  "assignProperty ext p val =
     (case p of
        Absent \<Rightarrow> (if ext then Present True val else Absent)
      | Present w v \<Rightarrow> (if w then Present True val else Present w v))"

text \<open>
  A number of the renderer is a real number or \<^verbatim>\<open>NaN\<close> (\<open>None\<close>). An option that reads
  \<^verbatim>\<open>undefined\<close> becomes \<^verbatim>\<open>NaN\<close> in arithmetic, so the value read from a numeric option is
  used as such a number. \<^verbatim>\<open>NaN\<close> absorbs \<^verbatim>\<open>*\<close>, \<^verbatim>\<open>+\<close>, \<^verbatim>\<open>-\<close>, \<^verbatim>\<open>Math.min\<close> and \<^verbatim>\<open>Math.max\<close>,
  every comparison with it is \<^verbatim>\<open>false\<close>, and a typed array stores it as 0.
\<close>

type_synonym jsnum = "real option"

definition arith :: "(real \<Rightarrow> real \<Rightarrow> real) \<Rightarrow> jsnum \<Rightarrow> jsnum \<Rightarrow> jsnum" where
  "arith f a b =
     (case a of None \<Rightarrow> None | Some x \<Rightarrow> (case b of None \<Rightarrow> None | Some y \<Rightarrow> Some (f x y)))"

definition jsMul :: "jsnum \<Rightarrow> jsnum \<Rightarrow> jsnum" where
  "jsMul = arith (\<lambda>x y. x * y)"

definition jsAdd :: "jsnum \<Rightarrow> jsnum \<Rightarrow> jsnum" where
  "jsAdd = arith (\<lambda>x y. x + y)"

definition jsSub :: "jsnum \<Rightarrow> jsnum \<Rightarrow> jsnum" where
  "jsSub = arith (\<lambda>x y. x - y)"

definition Math_min :: "jsnum \<Rightarrow> jsnum \<Rightarrow> jsnum" where
  "Math_min = arith min"

definition Math_max :: "jsnum \<Rightarrow> jsnum \<Rightarrow> jsnum" where
  "Math_max = arith max"

definition jsGreater :: "jsnum \<Rightarrow> jsnum \<Rightarrow> bool" where
  "jsGreater a b =
     (case a of None \<Rightarrow> False | Some x \<Rightarrow> (case b of None \<Rightarrow> False | Some y \<Rightarrow> x > y))"

definition storeByte :: "jsnum \<Rightarrow> nat" where
  "storeByte v = (case v of None \<Rightarrow> 0 | Some x \<Rightarrow> toUint8Clamped x)"

text \<open>
  The colour object of the renderer, with channels that may be \<^verbatim>\<open>NaN\<close>, and \<^verbatim>\<open>hslToRgb\<close>
  on a saturation and a lightness that may be \<^verbatim>\<open>NaN\<close>: the same text as \<open>hslToRgb\<close>, with
  the arithmetic above. On numbers that are not \<^verbatim>\<open>NaN\<close> it computes what \<open>hslToRgb\<close>
  computes (lemma \<open>hslToRgbN_numbers\<close>). The hue stays a real number: the renderer passes
  what \<^verbatim>\<open>Math.random()\<close> returned.
\<close>

record jsrgb =
  js_r :: jsnum
  js_g :: jsnum
  js_b :: jsnum

record jsrgba = jsrgb +
  js_a :: jsnum

definition hslToRgbN :: "real \<Rightarrow> jsnum \<Rightarrow> jsnum \<Rightarrow> 'a jsrgb_scheme \<Rightarrow> 'a jsrgb_scheme" where
  "hslToRgbN h s l result =
     (let i = \<lfloor>h * 6\<rfloor>;
          f = h * 6 - of_int i;
          p = jsMul l (jsSub (Some 1) s);
          q = jsMul l (jsSub (Some 1) (jsMul (Some f) s));
          t = jsMul l (jsSub (Some 1) (jsMul (Some (1 - f)) s));
          k = jsRem i 6
      in if k = 0 then result\<lparr> js_r := l, js_g := t, js_b := p \<rparr>
         else if k = 1 then result\<lparr> js_r := q, js_g := l, js_b := p \<rparr>
         else if k = 2 then result\<lparr> js_r := p, js_g := l, js_b := t \<rparr>
         else if k = 3 then result\<lparr> js_r := p, js_g := q, js_b := l \<rparr>
         else if k = 4 then result\<lparr> js_r := t, js_g := p, js_b := l \<rparr>
         else if k = 5 then result\<lparr> js_r := l, js_g := p, js_b := q \<rparr>
         else result)"

text \<open>
  The five options as the renderer reads them from \<^verbatim>\<open>this.options\<close>: for each name the
  value of the property, or \<^verbatim>\<open>undefined\<close>. \<^verbatim>\<open>if (this.options.colored)\<close> holds when the
  value is \<^verbatim>\<open>true\<close>. The options object does not change while \<^verbatim>\<open>init\<close> runs, and the
  renderer receives the record of the five values read after the constructor's loop (see
  \<open>Sprite_v002\<close>). The local variable \<^verbatim>\<open>saturation\<close> of \<^verbatim>\<open>renderPixelData\<close> is \<open>sat\<close> here,
  the name being taken by the option.
\<close>

record option_values =
  colored :: "bool option"
  edgeBrightness :: jsnum
  colorVariations :: jsnum
  brightnessNoise :: jsnum
  saturation :: jsnum

text \<open>
  The body of the inner loop of \<^verbatim>\<open>renderPixelData\<close> is given in two parts: \<open>pixelColor\<close> is
  the colour \<^verbatim>\<open>rgba\<close> computed for the cell value \<^verbatim>\<open>val\<close> (from \<^verbatim>\<open>var rgba = ...\<close> to the end
  of the \<^verbatim>\<open>if (val !== 0) ... else ...\<close>), and \<open>renderPixel_v002\<close> reads the cell, computes
  its colour and writes the four bytes.
\<close>

definition pixelColor ::
  "option_values \<Rightarrow> jsnum \<Rightarrow> real \<Rightarrow> nat \<Rightarrow> nat \<Rightarrow> cell \<Rightarrow> rng \<Rightarrow> jsrgba \<times> rng" where
  "pixelColor opts sat hue ulen u val g =
     (let rgba = \<lparr> js_r = Some 1, js_g = Some 1, js_b = Some 1, js_a = Some 1 \<rparr>
      in if val \<noteq> Some 0 then
           (if option_values.colored opts = Some True then
              (let (n, g') = Math_random g;
                   brightness =
                     jsAdd (jsMul (Some (sin ((real u / real ulen) * pi)))
                                  (jsSub (Some 1) (brightnessNoise opts)))
                           (jsMul (Some n) (brightnessNoise opts));
                   c = hslToRgbN hue sat brightness rgba;
                   c = (if val = Some (- 1)
                        then c\<lparr> js_r := jsMul (js_r c) (edgeBrightness opts),
                                js_g := jsMul (js_g c) (edgeBrightness opts),
                                js_b := jsMul (js_b c) (edgeBrightness opts) \<rparr>
                        else c)
               in (c, g'))
            else
              ((if val = Some (- 1) then rgba\<lparr> js_r := Some 0, js_g := Some 0, js_b := Some 0 \<rparr>
                else rgba), g))
         else (rgba\<lparr> js_a := Some 0 \<rparr>, g))"

definition renderPixel_v002 ::
  "'a sprite_scheme \<Rightarrow> option_values \<Rightarrow> bool \<Rightarrow> jsnum \<Rightarrow> real \<Rightarrow> nat \<Rightarrow> nat \<Rightarrow> nat \<Rightarrow> nat
     \<Rightarrow> nat list \<times> rng \<Rightarrow> nat list \<times> rng" where
  "renderPixel_v002 this opts isVerticalGradient sat hue ulen vlen u v = (\<lambda>(px, g).
     let (val, index) =
           (if isVerticalGradient then (getData this v u, (u * vlen + v) * 4)
            else (getData this u v, (v * ulen + u) * 4));
         (rgba, g) = pixelColor opts sat hue ulen u val g
     in (px[index + 0 := storeByte (jsMul (js_r rgba) (Some 255)),
            index + 1 := storeByte (jsMul (js_g rgba) (Some 255)),
            index + 2 := storeByte (jsMul (js_b rgba) (Some 255)),
            index + 3 := storeByte (jsMul (js_a rgba) (Some 255))], g))"

definition renderColumn_v002 ::
  "'a sprite_scheme \<Rightarrow> option_values \<Rightarrow> bool \<Rightarrow> jsnum \<Rightarrow> nat \<Rightarrow> nat \<Rightarrow> nat
     \<Rightarrow> nat list \<times> rng \<times> real \<Rightarrow> nat list \<times> rng \<times> real" where
  "renderColumn_v002 this opts isVerticalGradient sat ulen vlen u = (\<lambda>(px, g, hue).
     let (a1, g) = Math_random g;
         (a2, g) = Math_random g;
         (a3, g) = Math_random g;
         isNewColor = \<bar>((a1 * 2 - 1) + (a2 * 2 - 1) + (a3 * 2 - 1)) / 3\<bar>;
         (hue, g) = (if jsGreater (Some isNewColor) (jsSub (Some 1) (colorVariations opts))
                     then Math_random g else (hue, g));
         (px, g) = fold (renderPixel_v002 this opts isVerticalGradient sat hue ulen vlen u)
                     [0..<vlen] (px, g)
     in (px, g, hue))"

definition renderPixelData_v002 ::
  "'a sprite_scheme \<Rightarrow> option_values \<Rightarrow> rng \<Rightarrow> 'a sprite_scheme \<times> rng" where
  "renderPixelData_v002 this opts g0 =
     (let (r0, g) = Math_random g0;
          isVerticalGradient = (r0 > 1 / 2);
          (r1, g) = Math_random g;
          sat = Math_max (Math_min (jsMul (Some r1) (option_values.saturation opts)) (Some 1)) (Some 0);
          (hue, g) = Math_random g;
          (ulen, vlen) = (if isVerticalGradient
                          then (sprite.height this, sprite.width this)
                          else (sprite.width this, sprite.height this));
          (px, g, hue) = fold (renderColumn_v002 this opts isVerticalGradient sat ulen vlen)
                           [0..<ulen] (sprite.pixels this, g, hue)
      in (this\<lparr> sprite.pixels := px \<rparr>, g))"

section \<open>Construction\<close>

text \<open>
  \<^verbatim>\<open>initContext\<close> asks the canvas for an image of \<^verbatim>\<open>width\<close> by \<^verbatim>\<open>height\<close> pixels: four
  bytes a pixel, all zero. (\<^verbatim>\<open>initCanvas\<close> only makes the canvas.) The canvas is outside
  the program; it refuses an image without pixels, and a mask has a positive width and
  height. For a width or height of zero the model goes on with an empty buffer and an
  empty grid.
\<close>

definition initContext :: "'a sprite_scheme \<Rightarrow> 'a sprite_scheme" where
  "initContext this =
     this\<lparr> sprite.pixels := replicate (sprite.width this * sprite.height this * 4) 0 \<rparr>"

text \<open>
  \<^verbatim>\<open>init\<close> of v0.0.1. Under \<^verbatim>\<open>this.mask.mirrorY\<close> the source calls \<^verbatim>\<open>this.mirrorX()\<close>.
\<close>

definition init_v001 :: "'a sprite_scheme \<Rightarrow> rng \<Rightarrow> 'a sprite_scheme \<times> rng" where
  "init_v001 this g =
     (let this = initContext this;
          this = initData this;
          this = applyMask this;
          (this, g) = generateRandomSample (this, g);
          this = (if mask.mirrorX (mask this) then mirrorX this else this);
          this = (if mask.mirrorY (mask this) then mirrorX this else this);
          this = generateEdges this;
          this = renderPixelData_v001 this
      in (this, g))"

definition Sprite_v001 :: "mask \<Rightarrow> rng \<Rightarrow> sprite \<times> rng" where
  "Sprite_v001 m g =
     init_v001
       \<lparr> sprite.width = mask.width m * (if mask.mirrorX m then 2 else 1),
         height = mask.height m * (if mask.mirrorY m then 2 else 1),
         mask = m,
         data = (\<lambda>_. None),
         pixels = [] \<rparr> g"

text \<open>\<^verbatim>\<open>init\<close> of v0.0.2.\<close>

definition init_v002 :: "'a sprite_scheme \<Rightarrow> option_values \<Rightarrow> rng \<Rightarrow> 'a sprite_scheme \<times> rng" where
  "init_v002 this opts g =
     (let this = initContext this;
          this = initData this;
          this = applyMask this;
          (this, g) = generateRandomSample (this, g);
          this = (if mask.mirrorX (mask this) then mirrorX this else this);
          this = (if mask.mirrorY (mask this) then mirrorY this else this);
          this = generateEdges this
      in renderPixelData_v002 this opts g)"

text \<open>
  The options object of the caller lives in a store of objects and is passed by
  reference. It has the five properties of \<^verbatim>\<open>defaults\<close>, each in one of the states of a
  property, and it is extensible or not. \<^verbatim>\<open>options || {}\<close> makes a new empty object when
  the caller passed none.
\<close>

record options_obj =
  extensible :: bool
  colored :: "bool property"
  edgeBrightness :: "real property"
  colorVariations :: "real property"
  brightnessNoise :: "real property"
  saturation :: "real property"

record store =
  objects :: "nat \<Rightarrow> options_obj"
  fresh :: nat

record sprite_v002 = sprite +
  options :: nat

definition defaults :: option_values where
  "defaults = \<lparr> option_values.colored = Some True, edgeBrightness = Some (3 / 10),
                colorVariations = Some (2 / 10), brightnessNoise = Some (3 / 10),
                saturation = Some (5 / 10) \<rparr>"

definition emptyObject :: options_obj where
  "emptyObject = \<lparr> extensible = True, colored = Absent, edgeBrightness = Absent,
                   colorVariations = Absent, brightnessNoise = Absent, saturation = Absent \<rparr>"

text \<open>
  One turn of the loop over the properties of \<^verbatim>\<open>defaults\<close>, for the property \<open>p\<close> with the
  default \<open>d\<close>: \<^verbatim>\<open>val\<close> is what the property reads, or the default where that is
  \<^verbatim>\<open>undefined\<close>, and \<^verbatim>\<open>this.options[prop] = val\<close> assigns it. \<open>setDefaults\<close> is the object after
  the five turns, and \<open>readOptions\<close> is what the renderer then reads from it.
\<close>

definition setDefault :: "bool \<Rightarrow> 'a property \<Rightarrow> 'a option \<Rightarrow> 'a property" where
  "setDefault ext p d =
     (let val = readProperty p;
          val = (if val = None then d else val)
      in assignProperty ext p val)"

definition setDefaults :: "options_obj \<Rightarrow> options_obj" where
  "setDefaults obj =
     obj\<lparr> options_obj.colored :=
            setDefault (extensible obj) (options_obj.colored obj) (option_values.colored defaults),
          options_obj.edgeBrightness :=
            setDefault (extensible obj) (options_obj.edgeBrightness obj) (option_values.edgeBrightness defaults),
          options_obj.colorVariations :=
            setDefault (extensible obj) (options_obj.colorVariations obj) (option_values.colorVariations defaults),
          options_obj.brightnessNoise :=
            setDefault (extensible obj) (options_obj.brightnessNoise obj) (option_values.brightnessNoise defaults),
          options_obj.saturation :=
            setDefault (extensible obj) (options_obj.saturation obj) (option_values.saturation defaults) \<rparr>"

definition readOptions :: "options_obj \<Rightarrow> option_values" where
  "readOptions obj =
     \<lparr> option_values.colored = readProperty (options_obj.colored obj),
       edgeBrightness = readProperty (options_obj.edgeBrightness obj),
       colorVariations = readProperty (options_obj.colorVariations obj),
       brightnessNoise = readProperty (options_obj.brightnessNoise obj),
       saturation = readProperty (options_obj.saturation obj) \<rparr>"

definition Sprite_v002 ::
  "mask \<Rightarrow> nat option \<Rightarrow> store \<Rightarrow> rng \<Rightarrow> sprite_v002 \<times> store \<times> rng" where
  "Sprite_v002 m optionsArg st g =
     (let (ref, st) =
            (case optionsArg of
               Some a \<Rightarrow> (a, st)
             | None \<Rightarrow> (fresh st,
                        st\<lparr> objects := (objects st)(fresh st := emptyObject),
                            fresh := Suc (fresh st) \<rparr>));
          st = st\<lparr> objects := (objects st)(ref := setDefaults (objects st ref)) \<rparr>;
          this = \<lparr> sprite.width = mask.width m * (if mask.mirrorX m then 2 else 1),
                   height = mask.height m * (if mask.mirrorY m then 2 else 1),
                   mask = m,
                   data = (\<lambda>_. None),
                   pixels = [],
                   options = ref \<rparr>;
          (this, g) = init_v002 this (readOptions (objects st ref)) g
      in (this, st, g))"

section \<open>Notions used in the statements\<close>

text \<open>
  The definitions of this section are not part of the program. They name the properties
  that the theorems state, the intermediate state of \<^verbatim>\<open>init\<close>, and the concrete inputs at
  which the theorems are applied.
\<close>

subsection \<open>Positions in a pass\<close>

text \<open>
  \<open>before y x y' x'\<close>: a row-major pass that is about to treat the cell in column \<open>x\<close> of
  row \<open>y\<close> has already treated the cell in column \<open>x'\<close> of row \<open>y'\<close>.
\<close>

definition before :: "nat \<Rightarrow> nat \<Rightarrow> nat \<Rightarrow> nat \<Rightarrow> bool" where
  "before y x y' x' \<longleftrightarrow> y' < y \<or> (y' = y \<and> x' < x)"

subsection \<open>Mirror symmetry\<close>

text \<open>
  A grid is symmetric in \<open>x\<close> when every cell equals the cell at the mirrored column of the
  same row, and symmetric in \<open>y\<close> when every cell equals the cell at the mirrored row of the
  same column.
\<close>

definition symmetricX :: "'a sprite_scheme \<Rightarrow> bool" where
  "symmetricX t \<longleftrightarrow> (\<forall>x y. x < sprite.width t \<longrightarrow> y < sprite.height t \<longrightarrow>
      getData t x y = getData t (sprite.width t - 1 - x) y)"

definition symmetricY :: "'a sprite_scheme \<Rightarrow> bool" where
  "symmetricY t \<longleftrightarrow> (\<forall>x y. x < sprite.width t \<longrightarrow> y < sprite.height t \<longrightarrow>
      getData t x y = getData t x (sprite.height t - 1 - y))"

subsection \<open>Edges\<close>

text \<open>
  \<open>adjacent x y x' y'\<close>: the cell \<open>(x', y')\<close> is one of the four orthogonal neighbours of
  \<open>(x, y)\<close>. \<open>bodyNeighbour s x y\<close>: some cell of the grid next to \<open>(x, y)\<close> holds a
  positive value. \<open>outlined t\<close>: no positive cell of the grid has an empty cell next to it,
  with the four bound checks of \<^verbatim>\<open>generateEdges\<close>.
\<close>

definition adjacent :: "nat \<Rightarrow> nat \<Rightarrow> nat \<Rightarrow> nat \<Rightarrow> bool" where
  "adjacent x y x' y' \<longleftrightarrow>
     (x' = x \<and> (y' + 1 = y \<or> y' = y + 1)) \<or> (y' = y \<and> (x' + 1 = x \<or> x' = x + 1))"

definition bodyNeighbour :: "'a sprite_scheme \<Rightarrow> nat \<Rightarrow> nat \<Rightarrow> bool" where
  "bodyNeighbour s x y \<longleftrightarrow>
     (\<exists>a b. a < sprite.width s \<and> b < sprite.height s \<and> adjacent a b x y
            \<and> positive (getData s a b))"

definition outlined :: "'a sprite_scheme \<Rightarrow> bool" where
  "outlined t \<longleftrightarrow> (\<forall>x y. x < sprite.width t \<longrightarrow> y < sprite.height t \<longrightarrow>
      positive (getData t x y) \<longrightarrow>
        (int y - 1 \<ge> 0 \<longrightarrow> getData t x (y - 1) \<noteq> Some 0) \<and>
        (y + 1 < sprite.height t \<longrightarrow> getData t x (y + 1) \<noteq> Some 0) \<and>
        (int x - 1 \<ge> 0 \<longrightarrow> getData t (x - 1) y \<noteq> Some 0) \<and>
        (x + 1 < sprite.width t \<longrightarrow> getData t (x + 1) y \<noteq> Some 0))"

subsection \<open>Sampling\<close>

text \<open>
  A cell is stochastic when it holds the code 1 or 2: these are the cells for which
  \<^verbatim>\<open>generateRandomSample\<close> calls \<^verbatim>\<open>Math.random()\<close>. \<open>drawsBefore d n\<close> counts the stochastic
  cells among the first \<open>n\<close> slots of the array \<open>d\<close>: it is the number of random numbers the
  pass has used when it reaches slot \<open>n\<close>. \<open>sampleCell v r\<close> is the new value of a cell that
  held \<open>v\<close> when the number drawn for it is \<open>r\<close>, and \<open>sampled d g n\<close> is the array after the
  pass has treated the first \<open>n\<close> slots with the random source \<open>g\<close>.
\<close>

definition stochastic :: "cell \<Rightarrow> bool" where
  "stochastic v \<longleftrightarrow> v = Some 1 \<or> v = Some 2"

fun drawsBefore :: "(nat \<Rightarrow> cell) \<Rightarrow> nat \<Rightarrow> nat" where
  "drawsBefore d 0 = 0"
| "drawsBefore d (Suc n) = drawsBefore d n + (if stochastic (d n) then 1 else 0)"

definition sampleCell :: "cell \<Rightarrow> real \<Rightarrow> cell" where
  "sampleCell v r =
     (if v = Some 1 then Some (1 * Math_round r)
      else if v = Some 2 then (if r > 1 / 2 then Some 1 else Some (- 1))
      else v)"

definition sampled :: "(nat \<Rightarrow> cell) \<Rightarrow> rng \<Rightarrow> nat \<Rightarrow> nat \<Rightarrow> cell" where
  "sampled d g n i = (if i < n then sampleCell (d i) (g (drawsBefore d i)) else d i)"

subsection \<open>The grid that \<^verbatim>\<open>init\<close> hands to the renderer\<close>

text \<open>
  \<open>gridPasses\<close> is \<^verbatim>\<open>init\<close> up to and including \<^verbatim>\<open>generateEdges\<close>. The flag tells what is
  called under \<^verbatim>\<open>this.mask.mirrorY\<close>: \<^verbatim>\<open>mirrorY\<close> (v0.0.2, \<open>True\<close>) or \<^verbatim>\<open>mirrorX\<close> (v0.0.1,
  \<open>False\<close>).
\<close>

definition gridPasses :: "bool \<Rightarrow> 'a sprite_scheme \<Rightarrow> rng \<Rightarrow> 'a sprite_scheme \<times> rng" where
  "gridPasses secondIsMirrorY this g =
     (let (t, g') = generateRandomSample (applyMask (initData (initContext this)), g);
          t = (if mask.mirrorX (mask t) then mirrorX t else t);
          t = (if mask.mirrorY (mask t) then (if secondIsMirrorY then mirrorY t else mirrorX t) else t)
      in (generateEdges t, g'))"

subsection \<open>Pixels\<close>

text \<open>
  \<open>alphaByte v\<close> is the alpha byte that goes with the cell value \<open>v\<close>. \<open>pixelIndex\<close> and
  \<open>cellAt\<close> are the index into the pixel buffer and the cell that the inner loop of
  \<^verbatim>\<open>renderPixelData\<close> (v0.0.2) computes for the loop counters \<open>u\<close> and \<open>v\<close>.
\<close>

definition alphaByte :: "cell \<Rightarrow> nat" where
  "alphaByte v = (if v = Some 0 then 0 else 255)"

definition pixelIndex :: "bool \<Rightarrow> nat \<Rightarrow> nat \<Rightarrow> nat \<Rightarrow> nat \<Rightarrow> nat" where
  "pixelIndex isV ulen vlen u v = (if isV then (u * vlen + v) * 4 else (v * ulen + u) * 4)"

definition cellAt :: "'a sprite_scheme \<Rightarrow> bool \<Rightarrow> nat \<Rightarrow> nat \<Rightarrow> cell" where
  "cellAt this isV u v = (if isV then getData this v u else getData this u v)"


subsection \<open>The options object\<close>

text \<open>
  \<open>accepts ext p\<close> tells whether an object with the extensibility \<open>ext\<close> accepts an
  assignment to its property \<open>p\<close>. \<open>filled ext p d\<close> is the property after the constructor's
  loop according to the statement about it: writable with the default \<open>d\<close> when it read
  \<^verbatim>\<open>undefined\<close> and the object accepts the assignment, and as it was otherwise.
\<close>

definition accepts :: "bool \<Rightarrow> 'a property \<Rightarrow> bool" where
  "accepts ext p = (case p of Absent \<Rightarrow> ext | Present w v \<Rightarrow> w)"

definition filled :: "bool \<Rightarrow> 'a property \<Rightarrow> 'a \<Rightarrow> 'a property" where
  "filled ext p d =
     (if readProperty p = None \<and> accepts ext p then Present True (Some d) else p)"

subsection \<open>Concrete inputs\<close>

text \<open>Masks: the mask of the mirror example, masks without stochastic codes, and small ones.\<close>

definition exampleMask :: mask where
  "exampleMask = \<lparr> mask.width = 2, height = 2, data = [0, 1, 2, - 1], mirrorX = True, mirrorY = True \<rparr>"

definition failingMask :: mask where
  "failingMask = \<lparr> mask.width = 1, height = 1, data = [0], mirrorX = False, mirrorY = True \<rparr>"

definition smallFixedMask :: mask where
  "smallFixedMask = \<lparr> mask.width = 1, height = 1, data = [0], mirrorX = True, mirrorY = False \<rparr>"

definition alphaMask :: mask where
  "alphaMask = \<lparr> mask.width = 2, height = 1, data = [0, - 1], mirrorX = False, mirrorY = False \<rparr>"

text \<open>A random source that alternates between \<open>3/4\<close> and \<open>1/4\<close>.\<close>

definition exampleRng :: rng where
  "exampleRng = (\<lambda>n. if even n then 3 / 4 else 1 / 4)"

text \<open>
  Stores: one where every object is empty, one where every object has only
  \<^verbatim>\<open>saturation\<close> set, one where every object is empty and frozen
  (\<^verbatim>\<open>Object.freeze({})\<close>), and one where every object is not extensible, has no \<^verbatim>\<open>colored\<close>,
  a read-only \<^verbatim>\<open>edgeBrightness\<close> that is \<^verbatim>\<open>undefined\<close>, a writable \<^verbatim>\<open>colorVariations\<close> that is
  \<^verbatim>\<open>undefined\<close>, a writable \<^verbatim>\<open>brightnessNoise\<close> of 1 and a read-only \<^verbatim>\<open>saturation\<close> of 2.
\<close>

definition emptyStore :: store where
  "emptyStore = \<lparr> objects = (\<lambda>_. emptyObject), fresh = 0 \<rparr>"

definition exampleStore :: store where
  "exampleStore = \<lparr> objects = (\<lambda>_. emptyObject\<lparr> options_obj.saturation := Present True (Some (9 / 10)) \<rparr>), fresh = 5 \<rparr>"

definition frozenObject :: options_obj where
  "frozenObject = \<lparr> extensible = False, colored = Absent, edgeBrightness = Absent,
                    colorVariations = Absent, brightnessNoise = Absent, saturation = Absent \<rparr>"

definition frozenStore :: store where
  "frozenStore = \<lparr> objects = (\<lambda>_. frozenObject), fresh = 1 \<rparr>"

definition lockedObject :: options_obj where
  "lockedObject = \<lparr> extensible = False, colored = Absent, edgeBrightness = Present False None,
                    colorVariations = Present True None, brightnessNoise = Present True (Some 1),
                    saturation = Present False (Some 2) \<rparr>"

definition lockedStore :: store where
  "lockedStore = \<lparr> objects = (\<lambda>_. lockedObject), fresh = 1 \<rparr>"

text \<open>Grids: a row \<open>0 1 0\<close>, a row of the codes \<open>1 2\<close>, and a single border cell.\<close>

definition edgeExample :: sprite where
  "edgeExample = \<lparr> sprite.width = 3, height = 1,
      mask = \<lparr> mask.width = 3, height = 1, data = [0, 1, 0], mirrorX = False, mirrorY = False \<rparr>,
      data = (\<lambda>i. if i = 1 then Some 1 else Some 0), pixels = [] \<rparr>"

definition sampleExample :: sprite where
  "sampleExample = \<lparr> sprite.width = 2, height = 1,
      mask = \<lparr> mask.width = 2, height = 1, data = [1, 2], mirrorX = False, mirrorY = False \<rparr>,
      data = (\<lambda>i. if i = 0 then Some 1 else if i = 1 then Some 2 else None), pixels = [] \<rparr>"


text \<open>
  Options with full brightness noise and the edge brightness \<open>e\<close>, as the values read and
  as the object of a caller in a store; and the mask of a single border cell.
\<close>

definition borderMask :: mask where
  "borderMask = \<lparr> mask.width = 1, height = 1, data = [- 1], mirrorX = False, mirrorY = False \<rparr>"








section \<open>Lemmas\<close>

subsection \<open>Loops and cells\<close>

text \<open>
  A property of a loop over \<open>[0..<n]\<close> follows from an invariant indexed by the loop
  counter; for the nested loop of a grid pass the invariant is indexed by the row and the
  column that come next. Two cells of a row-major array with columns below the width share
  an index only when they are the same cell.
\<close>

lemma fold_upt_rule:
  assumes "I 0 s" and "\<And>i t. i < n \<Longrightarrow> I i t \<Longrightarrow> I (Suc i) (f i t)"
  shows "I n (fold f [0..<n] s)"
  using assms
proof (induction n)
  case 0
  then show ?case by simp
next
  case (Suc n)
  have "I n (fold f [0..<n] s)"
    using Suc.IH Suc.prems by simp
  then show ?case using Suc.prems(2)[of n] by simp
qed

lemma forYX_rule:
  assumes init: "I 0 0 s"
    and step: "\<And>x y t. y < h \<Longrightarrow> x < w \<Longrightarrow> I y x t \<Longrightarrow> I y (Suc x) (body x y t)"
    and row: "\<And>y t. y < h \<Longrightarrow> I y w t \<Longrightarrow> I (Suc y) 0 t"
  shows "I h 0 (forYX h w body s)"
  unfolding forYX_def
proof (rule fold_upt_rule[where I = "\<lambda>y t. I y 0 t"])
  show "I 0 0 s" by (rule init)
next
  fix y t assume y: "y < h" and I: "I y 0 t"
  have "I y w (fold (\<lambda>x. body x y) [0..<w] t)"
    by (rule fold_upt_rule[where I = "\<lambda>x t. I y x t"]) (use I y step in auto)
  then show "I (Suc y) 0 (fold (\<lambda>x. body x y) [0..<w] t)"
    using row y by blast
qed

lemma width_setData [simp]: "sprite.width (setData t x y v) = sprite.width t"
  and height_setData [simp]: "sprite.height (setData t x y v) = sprite.height t"
  and mask_setData [simp]: "sprite.mask (setData t x y v) = sprite.mask t"
  and pixels_setData [simp]: "sprite.pixels (setData t x y v) = sprite.pixels t"
  and more_setData [simp]: "sprite.more (setData t x y v) = sprite.more t"
  by (simp_all add: setData_def)

lemma cell_index_inj:
  fixes w :: nat
  assumes "x < w" "x' < w" "y * w + x = y' * w + x'"
  shows "x = x' \<and> y = y'"
proof -
  have "(y * w + x) mod w = (y' * w + x') mod w" using assms(3) by simp
  then have "x = x'" using assms(1,2) by simp
  moreover have "(y * w + x) div w = (y' * w + x') div w" using assms(3) by simp
  then have "y = y'" using assms(1,2) by simp
  ultimately show ?thesis by simp
qed

lemma getData_setData:
  assumes "x < sprite.width t" "x' < sprite.width t"
  shows "getData (setData t x y v) x' y' = (if x' = x \<and> y' = y then v else getData t x' y')"
  using cell_index_inj[OF assms, of y y']
  by (auto simp: getData_def setData_def)

subsection \<open>Mirroring\<close>

text \<open>
  What \<^verbatim>\<open>mirrorX\<close> and \<^verbatim>\<open>mirrorY\<close> leave in each cell, in terms of the grid they started
  from: the pass reads the near half and writes the far half, so no cell it reads has been
  written. The result is symmetric, also for an odd width or height.
\<close>

lemma before_simps:
  "\<not> before 0 0 y' x'"
  "x' < w \<Longrightarrow> before y w y' x' = before (Suc y) 0 y' x'"
  "before y (Suc x) y' x' \<longleftrightarrow> before y x y' x' \<or> (y' = y \<and> x' = x)"
  by (auto simp: before_def)

lemma mirrorX_dims:
  "sprite.width (mirrorX s) = sprite.width s \<and> sprite.height (mirrorX s) = sprite.height s
   \<and> sprite.mask (mirrorX s) = sprite.mask s \<and> sprite.pixels (mirrorX s) = sprite.pixels s
   \<and> sprite.more (mirrorX s) = sprite.more s"
  unfolding mirrorX_def
  by (rule forYX_rule[where I = "\<lambda>y x t. sprite.width t = sprite.width s \<and> sprite.height t = sprite.height s
   \<and> sprite.mask t = sprite.mask s \<and> sprite.pixels t = sprite.pixels s
   \<and> sprite.more t = sprite.more s"]) auto

lemma getData_mirrorX:
  assumes "x' < sprite.width s"
  shows "getData (mirrorX s) x' y' =
     (if sprite.width s - 1 - x' < sprite.width s div 2 \<and> y' < sprite.height s
      then getData s (sprite.width s - 1 - x') y' else getData s x' y')"
proof -
  define W where "W = sprite.width s"
  define H where "H = sprite.height s"
  define I where "I = (\<lambda>y x (t :: 'a sprite_scheme). sprite.width t = W \<and>
     (\<forall>x' y'. x' < W \<longrightarrow> getData t x' y' =
       (if W - 1 - x' < W div 2 \<and> before y x y' (W - 1 - x')
        then getData s (W - 1 - x') y' else getData s x' y')))"
  have "I H 0 (forYX H (W div 2) (\<lambda>x y t. setData t (sprite.width t - x - 1) y (getData t x y)) s)"
  proof (rule forYX_rule)
    show "I 0 0 s" by (simp add: I_def W_def before_def)
  next
    fix x y t assume "y < H" "x < W div 2" "I y x t"
    then show "I y (Suc x) (setData t (sprite.width t - x - 1) y (getData t x y))"
      unfolding I_def
      apply (intro conjI allI impI)
       apply simp
      apply (subst getData_setData)
        apply simp
       apply simp
      apply (auto simp: before_def)
      done
  next
    fix y t assume "y < H" "I y (W div 2) t"
    then show "I (Suc y) 0 t"
      unfolding I_def by (auto simp: before_def)
  qed
  then show ?thesis using assms
    by (auto simp: I_def mirrorX_def W_def H_def before_def)
qed

lemma mirrorY_dims:
  "sprite.width (mirrorY s) = sprite.width s \<and> sprite.height (mirrorY s) = sprite.height s
   \<and> sprite.mask (mirrorY s) = sprite.mask s \<and> sprite.pixels (mirrorY s) = sprite.pixels s
   \<and> sprite.more (mirrorY s) = sprite.more s"
  unfolding mirrorY_def
  by (rule forYX_rule[where I = "\<lambda>y x t. sprite.width t = sprite.width s \<and> sprite.height t = sprite.height s
   \<and> sprite.mask t = sprite.mask s \<and> sprite.pixels t = sprite.pixels s
   \<and> sprite.more t = sprite.more s"]) auto

lemma getData_mirrorY:
  assumes "x' < sprite.width s"
  shows "getData (mirrorY s) x' y' =
     (if sprite.height s - 1 - y' < sprite.height s div 2 \<and> y' < sprite.height s
      then getData s x' (sprite.height s - 1 - y') else getData s x' y')"
proof -
  define W where "W = sprite.width s"
  define H where "H = sprite.height s"
  define I where "I = (\<lambda>y x (t :: 'a sprite_scheme). sprite.width t = W \<and> sprite.height t = H \<and>
     (\<forall>x' y'. x' < W \<longrightarrow> getData t x' y' =
       (if y' < H \<and> H - 1 - y' < H div 2 \<and> before y x (H - 1 - y') x'
        then getData s x' (H - 1 - y') else getData s x' y')))"
  have "I (H div 2) 0 (forYX (H div 2) W (\<lambda>x y t. setData t x (sprite.height t - y - 1) (getData t x y)) s)"
  proof (rule forYX_rule)
    show "I 0 0 s" by (simp add: I_def W_def H_def before_def)
  next
    fix x y t assume "y < H div 2" "x < W" "I y x t"
    then show "I y (Suc x) (setData t x (sprite.height t - y - 1) (getData t x y))"
      unfolding I_def
      apply (intro conjI allI impI)
        apply simp
       apply simp
      apply (subst getData_setData)
        apply simp
       apply simp
      apply (auto simp: before_def)
      done
  next
    fix y t assume "y < H div 2" "I y W t"
    then show "I (Suc y) 0 t"
      unfolding I_def by (auto simp: before_def)
  qed
  then show ?thesis using assms
    by (auto simp: I_def mirrorY_def W_def H_def before_def)
qed

lemma middle_index: "\<not> (n::nat) - Suc x < n div 2 \<Longrightarrow> \<not> x < n div 2 \<Longrightarrow> x < n \<Longrightarrow> n - Suc x = x"
  by arith

lemma symmetricX_mirrorX: "symmetricX (mirrorX s)"
  unfolding symmetricX_def
  by (auto simp: mirrorX_dims getData_mirrorX middle_index)

lemma symmetricY_mirrorY: "symmetricY (mirrorY s)"
  unfolding symmetricY_def
  by (auto simp: mirrorY_dims getData_mirrorY middle_index)

lemma symmetricX_mirrorY:
  assumes "symmetricX s"
  shows "symmetricX (mirrorY s)"
  unfolding symmetricX_def
proof (intro allI impI)
  fix x y
  assume "x < sprite.width (mirrorY s)" "y < sprite.height (mirrorY s)"
  then have x: "x < sprite.width s" and y: "y < sprite.height s"
    by (simp_all add: mirrorY_dims)
  have x': "sprite.width s - 1 - x < sprite.width s" using x by arith
  have sym: "\<And>b. b < sprite.height s \<Longrightarrow> getData s x b = getData s (sprite.width s - 1 - x) b"
    using assms x unfolding symmetricX_def by blast
  have y': "sprite.height s - 1 - y < sprite.height s" using y by arith
  have "getData (mirrorY s) x y = getData (mirrorY s) (sprite.width s - 1 - x) y"
    unfolding getData_mirrorY[OF x] getData_mirrorY[OF x']
    using sym[OF y] sym[OF y'] by simp
  then show "getData (mirrorY s) x y = getData (mirrorY s) (sprite.width (mirrorY s) - 1 - x) y"
    by (simp add: mirrorY_dims)
qed

subsection \<open>Edge synthesis\<close>

text \<open>
  \<^verbatim>\<open>generateEdges\<close> updates the grid in place, but it only turns empty cells into border
  cells, and neither kind is positive: the positive cells are those of the grid it started
  from, and the pass equals the rule applied to all cells at once.
\<close>

lemma edgeStep_props:
  "sprite.width (edgeStep x y t) = sprite.width t \<and>
   sprite.height (edgeStep x y t) = sprite.height t \<and>
   sprite.mask (edgeStep x y t) = sprite.mask t \<and>
   sprite.pixels (edgeStep x y t) = sprite.pixels t \<and>
   sprite.more (edgeStep x y t) = sprite.more t \<and>
   (x < sprite.width t \<longrightarrow> y < sprite.height t \<longrightarrow> (\<forall>x' y'. x' < sprite.width t \<longrightarrow>
      getData (edgeStep x y t) x' y' =
       (if positive (getData t x y) \<and> getData t x' y' = Some 0 \<and> adjacent x y x' y'
           \<and> y' < sprite.height t
        then Some (- 1) else getData t x' y')))"
proof (cases "positive (getData t x y)")
  case False
  then show ?thesis by (simp add: edgeStep_def)
next
  case True
  define t1 where "t1 = (if int y - 1 \<ge> 0 \<and> getData t x (y - 1) = Some 0
                   then setData t x (y - 1) (Some (- 1)) else t)"
  define t2 where "t2 = (if y + 1 < sprite.height t1 \<and> getData t1 x (y + 1) = Some 0
                   then setData t1 x (y + 1) (Some (- 1)) else t1)"
  define t3 where "t3 = (if int x - 1 \<ge> 0 \<and> getData t2 (x - 1) y = Some 0
                   then setData t2 (x - 1) y (Some (- 1)) else t2)"
  define t4 where "t4 = (if x + 1 < sprite.width t3 \<and> getData t3 (x + 1) y = Some 0
                   then setData t3 (x + 1) y (Some (- 1)) else t3)"
  have e: "edgeStep x y t = t4"
    unfolding edgeStep_def Let_def t4_def t3_def t2_def t1_def
    by (simp only: True if_True)
  have d1: "sprite.width t1 = sprite.width t" "sprite.height t1 = sprite.height t"
     "sprite.mask t1 = sprite.mask t" "sprite.pixels t1 = sprite.pixels t"
     "sprite.more t1 = sprite.more t"
    by (simp_all add: t1_def)
  have d2: "sprite.width t2 = sprite.width t" "sprite.height t2 = sprite.height t"
     "sprite.mask t2 = sprite.mask t" "sprite.pixels t2 = sprite.pixels t"
     "sprite.more t2 = sprite.more t"
    unfolding t2_def using d1 by simp_all
  have d3: "sprite.width t3 = sprite.width t" "sprite.height t3 = sprite.height t"
     "sprite.mask t3 = sprite.mask t" "sprite.pixels t3 = sprite.pixels t"
     "sprite.more t3 = sprite.more t"
    unfolding t3_def using d2 by simp_all
  have d4: "sprite.width t4 = sprite.width t" "sprite.height t4 = sprite.height t"
     "sprite.mask t4 = sprite.mask t" "sprite.pixels t4 = sprite.pixels t"
     "sprite.more t4 = sprite.more t"
    unfolding t4_def using d3 by simp_all
  have g: "getData t4 x' y' =
       (if getData t x' y' = Some 0 \<and> adjacent x y x' y' \<and> y' < sprite.height t
        then Some (- 1) else getData t x' y')"
    if x: "x < sprite.width t" and y: "y < sprite.height t" and x': "x' < sprite.width t" for x' y'
  proof -
    have g1: "getData t1 a b = (if a = x \<and> b + 1 = y \<and> getData t a b = Some 0 then Some (- 1) else getData t a b)"
      if "a < sprite.width t" for a b
      using that x by (auto simp: t1_def getData_setData)
    have g2: "getData t2 a b = (if a = x \<and> b = y + 1 \<and> b < sprite.height t \<and> getData t1 a b = Some 0 then Some (- 1) else getData t1 a b)"
      if "a < sprite.width t" for a b
      using that x d1 by (auto simp: t2_def getData_setData)
    have xm: "x - 1 < sprite.width t" using x by arith
    have g3: "getData t3 a b = (if a + 1 = x \<and> b = y \<and> getData t2 a b = Some 0 then Some (- 1) else getData t2 a b)"
      if "a < sprite.width t" for a b
      using that xm d2 by (auto simp: t3_def getData_setData)
    have g4: "getData t4 a b = (if a = x + 1 \<and> b = y \<and> getData t3 a b = Some 0 then Some (- 1) else getData t3 a b)"
      if "a < sprite.width t" for a b
      using that d3 by (auto simp: t4_def getData_setData)
    show ?thesis
      unfolding g4[OF x'] g3[OF x'] g2[OF x'] g1[OF x'] adjacent_def
      using y by auto
  qed
  show ?thesis unfolding e using d4 g True by simp
qed

lemma generateEdges_dims:
  "sprite.width (generateEdges s) = sprite.width s \<and> sprite.height (generateEdges s) = sprite.height s
   \<and> sprite.mask (generateEdges s) = sprite.mask s \<and> sprite.pixels (generateEdges s) = sprite.pixels s
   \<and> sprite.more (generateEdges s) = sprite.more s"
  unfolding generateEdges_def
  by (rule forYX_rule[where I = "\<lambda>y x t. sprite.width t = sprite.width s \<and> sprite.height t = sprite.height s
   \<and> sprite.mask t = sprite.mask s \<and> sprite.pixels t = sprite.pixels s
   \<and> sprite.more t = sprite.more s"])
     (simp_all add: edgeStep_props)

lemma getData_generateEdges:
  assumes "x' < sprite.width s" "y' < sprite.height s"
  shows "getData (generateEdges s) x' y' =
     (if getData s x' y' = Some 0 \<and> bodyNeighbour s x' y' then Some (- 1) else getData s x' y')"
proof -
  define W where "W = sprite.width s"
  define H where "H = sprite.height s"
  define nb where "nb = (\<lambda>y x x' y'. \<exists>a b. a < W \<and> b < H \<and> adjacent a b x' y'
            \<and> before y x b a \<and> positive (getData s a b))"
  define I where "I = (\<lambda>y x (t :: 'a sprite_scheme). sprite.width t = W \<and> sprite.height t = H \<and>
     (\<forall>x' y'. x' < W \<longrightarrow> y' < H \<longrightarrow> getData t x' y' =
       (if getData s x' y' = Some 0 \<and> nb y x x' y' then Some (- 1) else getData s x' y')))"
  have "I H 0 (forYX H W edgeStep s)"
  proof (rule forYX_rule)
    show "I 0 0 s" by (simp add: I_def W_def H_def nb_def before_def)
  next
    fix x y t assume y: "y < H" and x: "x < W" and inv: "I y x t"
    have wt: "sprite.width t = W" and ht: "sprite.height t = H"
      using inv by (simp_all add: I_def)
    have cur: "getData t a b =
       (if getData s a b = Some 0 \<and> nb y x a b then Some (- 1) else getData s a b)"
      if "a < W" "b < H" for a b
      using inv that by (simp add: I_def)
    have pos: "positive (getData t x y) = positive (getData s x y)"
      using cur[OF x y] by (auto simp: positive_def)
    have step: "getData (edgeStep x y t) x' y' =
       (if positive (getData t x y) \<and> getData t x' y' = Some 0 \<and> adjacent x y x' y'
           \<and> y' < sprite.height t
        then Some (- 1) else getData t x' y')" if "x' < W" for x' y'
      using edgeStep_props[of x y t] x y that wt ht by simp
    have nbS: "nb y (Suc x) x' y' \<longleftrightarrow> nb y x x' y' \<or> (adjacent x y x' y' \<and> positive (getData s x y))"
      for x' y'
      unfolding nb_def before_simps(3) using x y by blast
    have "getData (edgeStep x y t) x' y' =
       (if getData s x' y' = Some 0 \<and> nb y (Suc x) x' y' then Some (- 1) else getData s x' y')"
      if x': "x' < W" and y': "y' < H" for x' y'
      unfolding step[OF x'] pos cur[OF x' y'] nbS ht using y' by auto
    then show "I y (Suc x) (edgeStep x y t)"
      unfolding I_def using wt ht by (simp add: edgeStep_props)
  next
    fix y t assume "y < H" "I y W t"
    moreover have "nb y W x' y' = nb (Suc y) 0 x' y'" for x' y'
      unfolding nb_def using before_simps(2) by blast
    ultimately show "I (Suc y) 0 t"
      unfolding I_def by simp
  qed
  moreover have "nb H 0 x' y' = bodyNeighbour s x' y'"
    unfolding nb_def bodyNeighbour_def before_def W_def H_def by auto
  ultimately show ?thesis using assms
    by (simp add: I_def generateEdges_def W_def H_def)
qed

lemma edgeStep_outlined:
  assumes "outlined t" "x < sprite.width t" "y < sprite.height t"
  shows "edgeStep x y t = t"
proof (cases "positive (getData t x y)")
  case False
  then show ?thesis by (simp add: edgeStep_def)
next
  case True
  then have n: "\<not> (int y - 1 \<ge> 0 \<and> getData t x (y - 1) = Some 0)"
    "\<not> (y + 1 < sprite.height t \<and> getData t x (y + 1) = Some 0)"
    "\<not> (int x - 1 \<ge> 0 \<and> getData t (x - 1) y = Some 0)"
    "\<not> (x + 1 < sprite.width t \<and> getData t (x + 1) y = Some 0)"
    using assms unfolding outlined_def by blast+
  show ?thesis
    unfolding edgeStep_def Let_def
    by (simp only: True n if_True if_False)
qed

lemma generateEdges_outlined:
  assumes "outlined s"
  shows "generateEdges s = s"
  unfolding generateEdges_def
  by (rule forYX_rule[where I = "\<lambda>y x t. t = s"]) (simp_all add: edgeStep_outlined assms)

lemma positive_generateEdges:
  assumes "x < sprite.width s" "y < sprite.height s"
  shows "positive (getData (generateEdges s) x y) = positive (getData s x y)"
  by (auto simp: getData_generateEdges[OF assms] positive_def)

lemma adjacent_simps:
  "0 < y \<Longrightarrow> adjacent x y x (y - 1)"
  "adjacent x y x (y + 1)"
  "0 < x \<Longrightarrow> adjacent x y (x - 1) y"
  "adjacent x y (x + 1) y"
  by (auto simp: adjacent_def)

lemma outlined_generateEdges: "outlined (generateEdges s)"
  unfolding outlined_def
proof (intro allI impI)
  fix x y
  assume "x < sprite.width (generateEdges s)" "y < sprite.height (generateEdges s)"
    and p: "positive (getData (generateEdges s) x y)"
  then have x: "x < sprite.width s" and y: "y < sprite.height s"
    by (simp_all add: generateEdges_dims)
  have ps: "positive (getData s x y)"
    using p positive_generateEdges[OF x y] by simp
  have nz: "getData (generateEdges s) a b \<noteq> Some 0"
    if "a < sprite.width s" "b < sprite.height s" "adjacent x y a b" for a b
  proof -
    have "bodyNeighbour s a b"
      unfolding bodyNeighbour_def using x y ps that(3) by blast
    then show ?thesis
      by (simp add: getData_generateEdges[OF that(1,2)])
  qed
  show "(int y - 1 \<ge> 0 \<longrightarrow> getData (generateEdges s) x (y - 1) \<noteq> Some 0) \<and>
        (y + 1 < sprite.height (generateEdges s) \<longrightarrow> getData (generateEdges s) x (y + 1) \<noteq> Some 0) \<and>
        (int x - 1 \<ge> 0 \<longrightarrow> getData (generateEdges s) (x - 1) y \<noteq> Some 0) \<and>
        (x + 1 < sprite.width (generateEdges s) \<longrightarrow> getData (generateEdges s) (x + 1) y \<noteq> Some 0)"
  proof (intro conjI impI)
    assume "int y - 1 \<ge> 0"
    then have "0 < y" by arith
    then show "getData (generateEdges s) x (y - 1) \<noteq> Some 0"
      using nz[of x "y - 1"] x y adjacent_simps(1) by simp
  next
    assume "y + 1 < sprite.height (generateEdges s)"
    then show "getData (generateEdges s) x (y + 1) \<noteq> Some 0"
      using nz[of x "y + 1"] x adjacent_simps(2) by (simp add: generateEdges_dims)
  next
    assume "int x - 1 \<ge> 0"
    then have "0 < x" by arith
    then show "getData (generateEdges s) (x - 1) y \<noteq> Some 0"
      using nz[of "x - 1" y] x y adjacent_simps(3) by simp
  next
    assume "x + 1 < sprite.width (generateEdges s)"
    then show "getData (generateEdges s) (x + 1) y \<noteq> Some 0"
      using nz[of "x + 1" y] y adjacent_simps(4) by (simp add: generateEdges_dims)
  qed
qed

lemma symmetricX_generateEdges:
  assumes "symmetricX s"
  shows "symmetricX (generateEdges s)"
  unfolding symmetricX_def
proof (intro allI impI)
  fix x y
  assume "x < sprite.width (generateEdges s)" "y < sprite.height (generateEdges s)"
  then have x: "x < sprite.width s" and y: "y < sprite.height s"
    by (simp_all add: generateEdges_dims)
  define W where "W = sprite.width s"
  have x': "W - 1 - x < sprite.width s" using x W_def by arith
  have sym: "getData s a b = getData s (W - 1 - a) b" if "a < W" "b < sprite.height s" for a b
    using assms that unfolding symmetricX_def W_def by blast
  have "bodyNeighbour s x y \<longleftrightarrow> bodyNeighbour s (W - 1 - x) y"
  proof
    assume "bodyNeighbour s x y"
    then obtain a b where ab: "a < W" "b < sprite.height s" "adjacent a b x y" "positive (getData s a b)"
      unfolding bodyNeighbour_def W_def by blast
    have "W - 1 - a < W" using ab(1) by arith
    moreover have "adjacent (W - 1 - a) b (W - 1 - x) y"
      using ab(1,3) x unfolding adjacent_def W_def by auto
    moreover have "positive (getData s (W - 1 - a) b)"
      using sym[OF ab(1,2)] ab(4) by simp
    ultimately show "bodyNeighbour s (W - 1 - x) y"
      unfolding bodyNeighbour_def W_def using ab(2) by blast
  next
    assume "bodyNeighbour s (W - 1 - x) y"
    then obtain a b where ab: "a < W" "b < sprite.height s" "adjacent a b (W - 1 - x) y" "positive (getData s a b)"
      unfolding bodyNeighbour_def W_def by blast
    have "W - 1 - a < W" using ab(1) by arith
    moreover have "adjacent (W - 1 - a) b x y"
      using ab(1,3) x unfolding adjacent_def W_def by auto
    moreover have "positive (getData s (W - 1 - a) b)"
      using sym[OF ab(1,2)] ab(4) by simp
    ultimately show "bodyNeighbour s x y"
      unfolding bodyNeighbour_def W_def using ab(2) by blast
  qed
  then have "getData (generateEdges s) x y = getData (generateEdges s) (W - 1 - x) y"
    unfolding getData_generateEdges[OF x y] getData_generateEdges[OF x' y]
    using sym[of x y] x y W_def by simp
  then show "getData (generateEdges s) x y = getData (generateEdges s) (sprite.width (generateEdges s) - 1 - x) y"
    by (simp add: generateEdges_dims W_def)
qed

subsection \<open>Sampling\<close>

text \<open>
  The state of \<^verbatim>\<open>generateRandomSample\<close> after each cell, in closed form: the slots before
  the current one are sampled, and the random source has advanced by the number of
  stochastic cells met.
\<close>

lemma sampled_Suc:
  "(sampled d g n)(n := sampleCell (d n) (g (drawsBefore d n))) = sampled d g (Suc n)"
  by (auto simp: sampled_def fun_eq_iff)

lemma sampleStep_eq:
  assumes t: "t = s\<lparr> sprite.data := sampled (sprite.data s) g0 n \<rparr>"
    and g: "g = (\<lambda>k. g0 (k + drawsBefore (sprite.data s) n))"
    and n: "n = y * sprite.width s + x"
  shows "sampleStep x y (t, g) =
     (s\<lparr> sprite.data := sampled (sprite.data s) g0 (Suc n) \<rparr>,
      \<lambda>k. g0 (k + drawsBefore (sprite.data s) (Suc n)))"
proof -
  have val: "getData t x y = sprite.data s n"
    by (simp add: getData_def t n sampled_def)
  have upd: "setData t x y v = s\<lparr> sprite.data := (sampled (sprite.data s) g0 n)(n := v) \<rparr>" for v
    by (simp add: setData_def t n)
  have r: "Math_random g = (g0 (drawsBefore (sprite.data s) n), \<lambda>k. g0 (Suc (k + drawsBefore (sprite.data s) n)))"
    by (simp add: Math_random_def g)
  consider (one) "sprite.data s n = Some 1" | (two) "sprite.data s n = Some 2"
    | (other) "\<not> stochastic (sprite.data s n)"
    by (auto simp: stochastic_def)
  then show ?thesis
  proof cases
    case one
    then show ?thesis
      unfolding sampleStep_def
      by (simp add: val upd r Let_def sampled_Suc[symmetric] sampleCell_def stochastic_def)
  next
    case two
    then show ?thesis
      unfolding sampleStep_def
      by (simp add: val upd r Let_def sampled_Suc[symmetric] sampleCell_def stochastic_def)
  next
    case other
    then show ?thesis
      unfolding sampleStep_def
      by (simp add: val upd Let_def sampled_Suc[symmetric] sampleCell_def stochastic_def g)
  qed
qed

lemma generateRandomSample_eq:
  "generateRandomSample (s, g0) =
     (s\<lparr> sprite.data := sampled (sprite.data s) g0 (sprite.height s * sprite.width s) \<rparr>,
      \<lambda>k. g0 (k + drawsBefore (sprite.data s) (sprite.height s * sprite.width s)))"
proof -
  define I where "I = (\<lambda>y x (p :: 'a sprite_scheme \<times> rng).
     p = (s\<lparr> sprite.data := sampled (sprite.data s) g0 (y * sprite.width s + x) \<rparr>,
          \<lambda>k. g0 (k + drawsBefore (sprite.data s) (y * sprite.width s + x))))"
  have "I (sprite.height s) 0 (forYX (sprite.height s) (sprite.width s) sampleStep (s, g0))"
  proof (rule forYX_rule)
    have "sampled (sprite.data s) g0 0 = sprite.data s"
      by (simp add: sampled_def fun_eq_iff)
    then show "I 0 0 (s, g0)" by (simp add: I_def)
  next
    fix x y p assume "y < sprite.height s" "x < sprite.width s" "I y x p"
    then show "I y (Suc x) (sampleStep x y p)"
      unfolding I_def using sampleStep_eq[OF refl refl refl, of x y s g0] by simp
  next
    fix y p assume "I y (sprite.width s) p"
    then show "I (Suc y) 0 p" by (simp add: I_def add.commute)
  qed
  then show ?thesis by (simp add: I_def generateRandomSample_def)
qed

lemma drawsBefore_none: "(\<And>i. \<not> stochastic (d i)) \<Longrightarrow> drawsBefore d n = 0"
  by (induction n) simp_all

lemma generateRandomSample_deterministic:
  assumes "\<And>i. \<not> stochastic (sprite.data s i)"
  shows "generateRandomSample (s, g) = (s, g)"
proof -
  have "sampled (sprite.data s) g n = sprite.data s" for n
    using assms by (auto simp: sampled_def sampleCell_def stochastic_def fun_eq_iff)
  then show ?thesis
    by (simp add: generateRandomSample_eq drawsBefore_none[OF assms])
qed

lemma drawsBefore_mono: "i \<le> j \<Longrightarrow> drawsBefore d i \<le> drawsBefore d j"
  by (induction j) (auto simp: le_Suc_eq)

lemma drawsBefore_strict:
  assumes "i < j" "stochastic (d i)"
  shows "drawsBefore d i < drawsBefore d j"
proof -
  have "drawsBefore d (Suc i) \<le> drawsBefore d j"
    using assms(1) by (intro drawsBefore_mono) simp
  then show ?thesis using assms(2) by simp
qed

subsection \<open>The passes of \<^verbatim>\<open>init\<close>\<close>

text \<open>
  What each pass leaves untouched, \<^verbatim>\<open>init\<close> as the grid passes followed by the renderer,
  and the grid passes on a mask without stochastic codes.
\<close>

lemma init_v001_eq:
  "init_v001 this g = (case gridPasses False this g of (t, g') \<Rightarrow> (renderPixelData_v001 t, g'))"
  by (simp add: init_v001_def gridPasses_def Let_def split: prod.splits)

lemma init_v002_eq:
  "init_v002 this opts g = (case gridPasses True this g of (t, g') \<Rightarrow> renderPixelData_v002 t opts g')"
  by (simp add: init_v002_def gridPasses_def Let_def split: prod.splits)

lemma initContext_fields [simp]:
  "sprite.width (initContext t) = sprite.width t"
  "sprite.height (initContext t) = sprite.height t"
  "sprite.mask (initContext t) = sprite.mask t"
  "sprite.data (initContext t) = sprite.data t"
  "sprite.more (initContext t) = sprite.more t"
  by (simp_all add: initContext_def)

lemma data_setData: "sprite.data (setData t x y v) = (sprite.data t)(y * sprite.width t + x := v)"
  by (simp add: setData_def)

lemma initData_fields:
  "sprite.width (initData s) = sprite.width s \<and> sprite.height (initData s) = sprite.height s
   \<and> sprite.mask (initData s) = sprite.mask s \<and> sprite.pixels (initData s) = sprite.pixels s
   \<and> sprite.more (initData s) = sprite.more s
   \<and> ((\<forall>i. \<not> stochastic (sprite.data s i)) \<longrightarrow> (\<forall>i. \<not> stochastic (sprite.data (initData s) i)))"
  unfolding initData_def
  by (rule forYX_rule[where I = "\<lambda>y x t. sprite.width t = sprite.width s \<and> sprite.height t = sprite.height s
   \<and> sprite.mask t = sprite.mask s \<and> sprite.pixels t = sprite.pixels s
   \<and> sprite.more t = sprite.more s
   \<and> ((\<forall>i. \<not> stochastic (sprite.data s i)) \<longrightarrow> (\<forall>i. \<not> stochastic (sprite.data t i)))"])
     (simp_all add: data_setData stochastic_def)

lemma arrayRead_not_stochastic:
  assumes "\<forall>v \<in> set xs. v = - 1 \<or> v = 0"
  shows "\<not> stochastic (arrayRead xs i)"
proof (cases "i < length xs")
  case True
  then have "xs ! i = - 1 \<or> xs ! i = 0"
    using assms nth_mem by blast
  then show ?thesis using True by (auto simp: arrayRead_def stochastic_def)
next
  case False
  then show ?thesis by (simp add: arrayRead_def stochastic_def)
qed

lemma applyMask_fields:
  "sprite.width (applyMask s) = sprite.width s \<and> sprite.height (applyMask s) = sprite.height s
   \<and> sprite.mask (applyMask s) = sprite.mask s \<and> sprite.pixels (applyMask s) = sprite.pixels s
   \<and> sprite.more (applyMask s) = sprite.more s
   \<and> ((\<forall>v \<in> set (mask.data (mask s)). v = - 1 \<or> v = 0) \<longrightarrow> (\<forall>i. \<not> stochastic (sprite.data s i))
        \<longrightarrow> (\<forall>i. \<not> stochastic (sprite.data (applyMask s) i)))"
  unfolding applyMask_def Let_def
  by (rule forYX_rule[where I = "\<lambda>y x t. sprite.width t = sprite.width s \<and> sprite.height t = sprite.height s
   \<and> sprite.mask t = sprite.mask s \<and> sprite.pixels t = sprite.pixels s
   \<and> sprite.more t = sprite.more s
   \<and> ((\<forall>v \<in> set (mask.data (mask s)). v = - 1 \<or> v = 0) \<longrightarrow> (\<forall>i. \<not> stochastic (sprite.data s i))
        \<longrightarrow> (\<forall>i. \<not> stochastic (sprite.data t i)))"])
     (simp_all add: data_setData arrayRead_not_stochastic)

lemma generateRandomSample_fields:
  "sprite.width (fst (generateRandomSample (s, g))) = sprite.width s"
  "sprite.height (fst (generateRandomSample (s, g))) = sprite.height s"
  "sprite.mask (fst (generateRandomSample (s, g))) = sprite.mask s"
  "sprite.pixels (fst (generateRandomSample (s, g))) = sprite.pixels s"
  "sprite.more (fst (generateRandomSample (s, g))) = sprite.more s"
  by (simp_all add: generateRandomSample_eq)

lemma masked_fields:
  "sprite.width (applyMask (initData (initContext s))) = sprite.width s"
  "sprite.height (applyMask (initData (initContext s))) = sprite.height s"
  "sprite.mask (applyMask (initData (initContext s))) = sprite.mask s"
  "sprite.more (applyMask (initData (initContext s))) = sprite.more s"
  by (simp_all add: applyMask_fields initData_fields)

lemma gridPasses_fields:
  "sprite.width (fst (gridPasses b s g)) = sprite.width s"
  "sprite.height (fst (gridPasses b s g)) = sprite.height s"
  "sprite.mask (fst (gridPasses b s g)) = sprite.mask s"
  "sprite.more (fst (gridPasses b s g)) = sprite.more s"
  by (simp_all add: gridPasses_def generateRandomSample_eq Let_def generateEdges_dims
        mirrorX_dims mirrorY_dims masked_fields)

lemma gridPasses_symmetricX:
  assumes "mask.mirrorX (mask s)"
  shows "symmetricX (fst (gridPasses b s g))"
  using assms
  by (simp add: gridPasses_def generateRandomSample_eq Let_def masked_fields mirrorX_dims
        symmetricX_generateEdges symmetricX_mirrorX symmetricX_mirrorY)

lemma symmetricY_generateEdges:
  assumes "symmetricY s"
  shows "symmetricY (generateEdges s)"
  unfolding symmetricY_def
proof (intro allI impI)
  fix x y
  assume "x < sprite.width (generateEdges s)" "y < sprite.height (generateEdges s)"
  then have x: "x < sprite.width s" and y: "y < sprite.height s"
    by (simp_all add: generateEdges_dims)
  define H where "H = sprite.height s"
  have y': "H - 1 - y < sprite.height s" using y H_def by arith
  have sym: "getData s a b = getData s a (H - 1 - b)" if "a < sprite.width s" "b < H" for a b
    using assms that unfolding symmetricY_def H_def by blast
  have flip: "bodyNeighbour s c (H - 1 - d)" if nb: "bodyNeighbour s c d" and dH: "d < H" for c d
  proof -
    obtain a b where ab: "a < sprite.width s" "b < H" "adjacent a b c d" "positive (getData s a b)"
      using nb unfolding bodyNeighbour_def H_def by blast
    have "H - 1 - b < H" using ab(2) by arith
    moreover have "adjacent a (H - 1 - b) c (H - 1 - d)"
      using ab(2,3) dH unfolding adjacent_def by auto
    moreover have "positive (getData s a (H - 1 - b))"
      using sym[OF ab(1,2)] ab(4) by simp
    ultimately show ?thesis
      unfolding bodyNeighbour_def H_def using ab(1) by blast
  qed
  have twice: "H - 1 - (H - 1 - y) = y" using y H_def by arith
  have "bodyNeighbour s x y \<longleftrightarrow> bodyNeighbour s x (H - 1 - y)"
    using flip[of x y] flip[of x "H - 1 - y"] y y' twice H_def by auto
  then have "getData (generateEdges s) x y = getData (generateEdges s) x (H - 1 - y)"
    unfolding getData_generateEdges[OF x y] getData_generateEdges[OF x y']
    using sym[of x y] x y H_def by simp
  then show "getData (generateEdges s) x y = getData (generateEdges s) x (sprite.height (generateEdges s) - 1 - y)"
    by (simp add: generateEdges_dims H_def)
qed

lemma gridPasses_symmetricY:
  assumes "mask.mirrorY (mask s)"
  shows "symmetricY (fst (gridPasses True s g))"
  using assms
  by (simp add: gridPasses_def generateRandomSample_eq Let_def masked_fields mirrorX_dims
        symmetricY_generateEdges symmetricY_mirrorY)

lemma gridPasses_deterministic:
  assumes m: "\<forall>v \<in> set (mask.data (mask s)). v = - 1 \<or> v = 0"
    and d: "\<forall>i. \<not> stochastic (sprite.data s i)"
  shows "fst (gridPasses b s g) = fst (gridPasses b s g')"
proof -
  have "\<forall>i. \<not> stochastic (sprite.data (initData (initContext s)) i)"
    using initData_fields[of "initContext s"] d by simp
  moreover have "mask (initData (initContext s)) = mask s"
    by (simp add: initData_fields)
  ultimately have "\<forall>i. \<not> stochastic (sprite.data (applyMask (initData (initContext s))) i)"
    using applyMask_fields[of "initData (initContext s)"] m by simp
  then have "generateRandomSample (applyMask (initData (initContext s)), h)
     = (applyMask (initData (initContext s)), h)" for h
    by (intro generateRandomSample_deterministic) simp
  then show ?thesis
    by (simp add: gridPasses_def Let_def)
qed

lemma renderPixelData_v001_fields:
  "sprite.width (renderPixelData_v001 s) = sprite.width s \<and>
   sprite.height (renderPixelData_v001 s) = sprite.height s \<and>
   sprite.mask (renderPixelData_v001 s) = sprite.mask s \<and>
   sprite.more (renderPixelData_v001 s) = sprite.more s \<and>
   sprite.data (renderPixelData_v001 s) = sprite.data s"
  unfolding renderPixelData_v001_def
  by (rule forYX_rule[where I = "\<lambda>y x t. sprite.width t = sprite.width s \<and> sprite.height t = sprite.height s
   \<and> sprite.mask t = sprite.mask s \<and> sprite.more t = sprite.more s \<and> sprite.data t = sprite.data s"])
     (simp_all add: renderStep_v001_def Let_def)

lemma renderPixelData_v002_fields:
  "sprite.width (fst (renderPixelData_v002 s opts g)) = sprite.width s"
  "sprite.height (fst (renderPixelData_v002 s opts g)) = sprite.height s"
  "sprite.mask (fst (renderPixelData_v002 s opts g)) = sprite.mask s"
  "sprite.more (fst (renderPixelData_v002 s opts g)) = sprite.more s"
  "sprite.data (fst (renderPixelData_v002 s opts g)) = sprite.data s"
  by (simp_all add: renderPixelData_v002_def Let_def split: prod.splits)

lemma getData_cong:
  "sprite.width t = sprite.width s \<Longrightarrow> sprite.data t = sprite.data s \<Longrightarrow> getData t x y = getData s x y"
  by (simp add: getData_def)

lemma init_v001_grid:
  "sprite.width (fst (init_v001 s g)) = sprite.width s"
  "sprite.height (fst (init_v001 s g)) = sprite.height s"
  "sprite.data (fst (init_v001 s g)) = sprite.data (fst (gridPasses False s g))"
  by (simp_all add: init_v001_eq renderPixelData_v001_fields gridPasses_fields case_prod_beta)

lemma init_v002_grid:
  "sprite.more (fst (init_v002 s opts g)) = sprite.more s"
  "sprite.mask (fst (init_v002 s opts g)) = sprite.mask s"
  "sprite.width (fst (init_v002 s opts g)) = sprite.width s"
  "sprite.height (fst (init_v002 s opts g)) = sprite.height s"
  "sprite.data (fst (init_v002 s opts g)) = sprite.data (fst (gridPasses True s g))"
  by (simp_all add: init_v002_eq renderPixelData_v002_fields gridPasses_fields case_prod_beta)

lemma Sprite_v001_init:
  "\<exists>s. (\<forall>g. fst (Sprite_v001 m g) = fst (init_v001 s g)) \<and> sprite.mask s = m
     \<and> sprite.width s = mask.width m * (if mask.mirrorX m then 2 else 1)
     \<and> sprite.height s = mask.height m * (if mask.mirrorY m then 2 else 1)
     \<and> sprite.data s = (\<lambda>_. None)"
  unfolding Sprite_v001_def
  by (intro exI conjI allI) (rule refl, simp_all)

lemma Sprite_v002_init:
  "\<exists>s opts. (\<forall>g. fst (Sprite_v002 m oa st g) = fst (init_v002 s opts g)) \<and> sprite.mask s = m
     \<and> sprite.width s = mask.width m * (if mask.mirrorX m then 2 else 1)
     \<and> sprite.height s = mask.height m * (if mask.mirrorY m then 2 else 1)
     \<and> sprite.data s = (\<lambda>_. None)"
proof -
  obtain ref st1 where r: "(case oa of
               Some a \<Rightarrow> (a, st)
             | None \<Rightarrow> (fresh st,
                        st\<lparr> objects := (objects st)(fresh st := emptyObject),
                            fresh := Suc (fresh st) \<rparr>)) = (ref, st1)"
    by (cases oa) simp_all
  define s where "s = \<lparr> sprite.width = mask.width m * (if mask.mirrorX m then 2 else 1),
                   height = mask.height m * (if mask.mirrorY m then 2 else 1),
                   mask = m, data = (\<lambda>_. None), pixels = [], options = ref \<rparr>"
  have "fst (Sprite_v002 m oa st g) = fst (init_v002 s (readOptions (setDefaults (objects st1 ref))) g)" for g
    unfolding Sprite_v002_def r s_def by (simp add: Let_def split: prod.splits)
  moreover have "sprite.mask s = m" "sprite.data s = (\<lambda>_. None)"
    "sprite.width s = mask.width m * (if mask.mirrorX m then 2 else 1)"
    "sprite.height s = mask.height m * (if mask.mirrorY m then 2 else 1)"
    by (simp_all add: s_def)
  ultimately show ?thesis by blast
qed

subsection \<open>Rendering\<close>

text \<open>
  Every pixel owns four consecutive bytes of the buffer, and the blocks of two different
  cells do not overlap: the alpha byte of a cell is the one written when its turn came.
\<close>

lemma toUint8Clamped_0 [simp]: "toUint8Clamped 0 = 0"
  and toUint8Clamped_255 [simp]: "toUint8Clamped 255 = 255"
  by (simp_all add: toUint8Clamped_def)

lemma arith_simps [simp]:
  "arith f (Some x) (Some y) = Some (f x y)"
  "arith f None b = None"
  "arith f a None = None"
  by (simp_all add: arith_def split: option.splits)

lemma jsnum_simps [simp]:
  "jsMul (Some x) (Some y) = Some (x * y)" "jsMul None b = None" "jsMul a None = None"
  "jsAdd (Some x) (Some y) = Some (x + y)" "jsAdd None b = None" "jsAdd a None = None"
  "jsSub (Some x) (Some y) = Some (x - y)" "jsSub None b = None" "jsSub a None = None"
  "Math_min (Some x) (Some y) = Some (min x y)" "Math_min None b = None" "Math_min a None = None"
  "Math_max (Some x) (Some y) = Some (max x y)" "Math_max None b = None" "Math_max a None = None"
  by (simp_all add: jsMul_def jsAdd_def jsSub_def Math_min_def Math_max_def)

lemma jsGreater_simps [simp]:
  "jsGreater (Some x) (Some y) = (x > y)" "jsGreater None b = False" "jsGreater a None = False"
  by (simp_all add: jsGreater_def split: option.splits)

lemma storeByte_simps [simp]:
  "storeByte (Some x) = toUint8Clamped x" "storeByte None = 0"
  by (simp_all add: storeByte_def)

lemma js_a_hslToRgbN [simp]: "js_a (hslToRgbN h s l c) = js_a c"
  by (simp add: hslToRgbN_def Let_def)

lemma hslToRgbN_numbers:
  "hslToRgbN h (Some s) (Some l) \<lparr> js_r = Some r, js_g = Some g, js_b = Some b, \<dots> = z \<rparr> =
     \<lparr> js_r = Some (rgb_r (hslToRgb h s l \<lparr> rgb_r = r, rgb_g = g, rgb_b = b \<rparr>)),
       js_g = Some (rgb_g (hslToRgb h s l \<lparr> rgb_r = r, rgb_g = g, rgb_b = b \<rparr>)),
       js_b = Some (rgb_b (hslToRgb h s l \<lparr> rgb_r = r, rgb_g = g, rgb_b = b \<rparr>)),
       \<dots> = z \<rparr>"
  by (simp add: hslToRgbN_def hslToRgb_def Let_def)

lemma pixelColor_alpha:
  "storeByte (jsMul (js_a (fst (pixelColor opts sat hue ulen u val g))) (Some 255)) = alphaByte val"
  by (simp add: pixelColor_def alphaByte_def Let_def case_prod_beta)

lemma four_updates:
  "length (px[i + 0 := a, i + 1 := b, i + 2 := c, i + 3 := d]) = length px"
  "j < i \<or> i + 4 \<le> j \<Longrightarrow> px[i + 0 := a, i + 1 := b, i + 2 := c, i + 3 := d] ! j = px ! j"
  "i + 3 < length px \<Longrightarrow> px[i + 0 := a, i + 1 := b, i + 2 := c, i + 3 := d] ! (i + 3) = d"
  by auto

lemma renderPixel_v002_shape:
  "fst (renderPixel_v002 this opts isV sat hue ulen vlen u v (px, g)) =
     px[pixelIndex isV ulen vlen u v + 0 := storeByte (jsMul (js_r (fst (pixelColor opts sat hue ulen u (if isV then getData this v u else getData this u v) g))) (Some 255)),
        pixelIndex isV ulen vlen u v + 1 := storeByte (jsMul (js_g (fst (pixelColor opts sat hue ulen u (if isV then getData this v u else getData this u v) g))) (Some 255)),
        pixelIndex isV ulen vlen u v + 2 := storeByte (jsMul (js_b (fst (pixelColor opts sat hue ulen u (if isV then getData this v u else getData this u v) g))) (Some 255)),
        pixelIndex isV ulen vlen u v + 3 := alphaByte (if isV then getData this v u else getData this u v)]"
  unfolding renderPixel_v002_def pixelIndex_def
  by (cases isV) (simp_all only: if_True if_False prod.case Let_def case_prod_beta fst_conv snd_conv pixelColor_alpha)

lemma renderPixel_v002_px:
  fixes this :: "'a sprite_scheme" and opts isV sat hue ulen vlen u v px g
  defines "px' \<equiv> fst (renderPixel_v002 this opts isV sat hue ulen vlen u v (px, g))"
  shows "length px' = length px"
    and "j < pixelIndex isV ulen vlen u v \<or> pixelIndex isV ulen vlen u v + 4 \<le> j \<Longrightarrow> px' ! j = px ! j"
    and "pixelIndex isV ulen vlen u v + 3 < length px \<Longrightarrow>
         px' ! (pixelIndex isV ulen vlen u v + 3) = alphaByte (if isV then getData this v u else getData this u v)"
  unfolding px'_def renderPixel_v002_shape
  by (rule four_updates; assumption)+

lemma pixelIndex_bound:
  assumes "u < ulen" "v < vlen"
  shows "pixelIndex isV ulen vlen u v + 3 < ulen * vlen * 4"
proof -
  have a: "u * vlen + v < ulen * vlen"
  proof -
    have "u * vlen + v < u * vlen + vlen" using assms(2) by simp
    also have "\<dots> = Suc u * vlen" by simp
    also have "\<dots> \<le> ulen * vlen" using assms(1) by (intro mult_le_mono1) simp
    finally show ?thesis .
  qed
  have b: "v * ulen + u < ulen * vlen"
  proof -
    have "v * ulen + u < v * ulen + ulen" using assms(1) by simp
    also have "\<dots> = Suc v * ulen" by simp
    also have "\<dots> \<le> vlen * ulen" using assms(2) by (intro mult_le_mono1) simp
    finally show ?thesis by (simp add: mult.commute)
  qed
  show ?thesis using a b by (simp add: pixelIndex_def)
qed

lemma pixelIndex_disjoint:
  assumes "u < ulen" "v < vlen" "u' < ulen" "v' < vlen" "(u', v') \<noteq> (u, v)"
  shows "pixelIndex isV ulen vlen u' v' + 3 < pixelIndex isV ulen vlen u v
       \<or> pixelIndex isV ulen vlen u v + 4 \<le> pixelIndex isV ulen vlen u' v' + 3"
proof (cases isV)
  case True
  have "u' * vlen + v' \<noteq> u * vlen + v"
    using cell_index_inj[of v' vlen v u' u] assms by auto
  then show ?thesis using True by (simp add: pixelIndex_def) arith
next
  case False
  have "v' * ulen + u' \<noteq> v * ulen + u"
    using cell_index_inj[of u' ulen u v' v] assms by auto
  then show ?thesis using False by (simp add: pixelIndex_def) arith
qed

lemma renderRow_px:
  fixes this :: "'a sprite_scheme" and opts isV sat hue g
  assumes u: "u < ulen" and len: "length px = ulen * vlen * 4"
  defines "px' \<equiv> fst (fold (renderPixel_v002 this opts isV sat hue ulen vlen u) [0..<vlen] (px, g))"
  shows "length px' = length px"
    and "\<And>u' v'. u' < ulen \<Longrightarrow> v' < vlen \<Longrightarrow> u' \<noteq> u \<Longrightarrow>
           px' ! (pixelIndex isV ulen vlen u' v' + 3) = px ! (pixelIndex isV ulen vlen u' v' + 3)"
    and "\<And>v'. v' < vlen \<Longrightarrow> px' ! (pixelIndex isV ulen vlen u v' + 3) = alphaByte (cellAt this isV u v')"
proof -
  define K where "K = (\<lambda>v (p :: nat list \<times> rng). length (fst p) = length px \<and>
     (\<forall>u' v'. u' < ulen \<longrightarrow> v' < vlen \<longrightarrow> u' \<noteq> u \<longrightarrow>
         fst p ! (pixelIndex isV ulen vlen u' v' + 3) = px ! (pixelIndex isV ulen vlen u' v' + 3)) \<and>
     (\<forall>v'. v' < v \<longrightarrow> v' < vlen \<longrightarrow>
         fst p ! (pixelIndex isV ulen vlen u v' + 3) = alphaByte (cellAt this isV u v')))"
  have "K vlen (fold (renderPixel_v002 this opts isV sat hue ulen vlen u) [0..<vlen] (px, g))"
  proof (rule fold_upt_rule)
    show "K 0 (px, g)" by (simp add: K_def)
  next
    fix v p assume v: "v < vlen" and K: "K v p"
    obtain q h where p: "p = (q, h)" by (cases p)
    have lq: "length q = length px" using K p by (simp add: K_def)
    note rp = renderPixel_v002_px[where this = this and opts = opts and isV = isV and sat = sat and hue = hue
        and ulen = ulen and vlen = vlen and u = u and v = v and px = q and g = h]
    have other: "fst (renderPixel_v002 this opts isV sat hue ulen vlen u v p) ! (pixelIndex isV ulen vlen u' v' + 3)
        = q ! (pixelIndex isV ulen vlen u' v' + 3)"
      if "u' < ulen" "v' < vlen" "(u', v') \<noteq> (u, v)" for u' v'
      unfolding p using rp(2) pixelIndex_disjoint[OF u v that] by blast
    have here: "fst (renderPixel_v002 this opts isV sat hue ulen vlen u v p) ! (pixelIndex isV ulen vlen u v + 3)
        = alphaByte (cellAt this isV u v)"
      unfolding p cellAt_def using rp(3) pixelIndex_bound[OF u v, of isV] lq len by simp
    show "K (Suc v) (renderPixel_v002 this opts isV sat hue ulen vlen u v p)"
      unfolding K_def
    proof (intro conjI allI impI)
      show "length (fst (renderPixel_v002 this opts isV sat hue ulen vlen u v p)) = length px"
        unfolding p using rp(1) lq by simp
    next
      fix u' v' assume a: "u' < ulen" "v' < vlen" "u' \<noteq> u"
      then show "fst (renderPixel_v002 this opts isV sat hue ulen vlen u v p) ! (pixelIndex isV ulen vlen u' v' + 3)
          = px ! (pixelIndex isV ulen vlen u' v' + 3)"
        using other[of u' v'] K p by (simp add: K_def)
    next
      fix v' assume a: "v' < Suc v" "v' < vlen"
      show "fst (renderPixel_v002 this opts isV sat hue ulen vlen u v p) ! (pixelIndex isV ulen vlen u v' + 3)
          = alphaByte (cellAt this isV u v')"
      proof (cases "v' = v")
        case True
        then show ?thesis using here by simp
      next
        case False
        then have "v' < v" using a by simp
        then show ?thesis using other[of u v'] u a(2) False K p by (simp add: K_def)
      qed
    qed
  qed
  then show "length px' = length px"
    and "\<And>u' v'. u' < ulen \<Longrightarrow> v' < vlen \<Longrightarrow> u' \<noteq> u \<Longrightarrow>
           px' ! (pixelIndex isV ulen vlen u' v' + 3) = px ! (pixelIndex isV ulen vlen u' v' + 3)"
    and "\<And>v'. v' < vlen \<Longrightarrow> px' ! (pixelIndex isV ulen vlen u v' + 3) = alphaByte (cellAt this isV u v')"
    by (simp_all add: K_def px'_def)
qed

lemma renderColumn_v002_shape:
  "\<exists>hue' g'. fst (renderColumn_v002 this opts isV sat ulen vlen u (px, g, hue)) =
      fst (fold (renderPixel_v002 this opts isV sat hue' ulen vlen u) [0..<vlen] (px, g'))"
  unfolding renderColumn_v002_def
  by (simp only: prod.case Let_def case_prod_beta fst_conv) blast

lemma renderColumns_px:
  fixes this :: "'a sprite_scheme" and opts isV sat g hue
  assumes len: "length px = ulen * vlen * 4"
  defines "res \<equiv> fold (renderColumn_v002 this opts isV sat ulen vlen) [0..<ulen] (px, g, hue)"
  shows "length (fst res) = length px \<and>
     (\<forall>u v. u < ulen \<longrightarrow> v < vlen \<longrightarrow>
         fst res ! (pixelIndex isV ulen vlen u v + 3) = alphaByte (cellAt this isV u v))"
proof -
  define J where "J = (\<lambda>u (p :: nat list \<times> rng \<times> real). length (fst p) = length px \<and>
     (\<forall>u' v'. u' < u \<longrightarrow> u' < ulen \<longrightarrow> v' < vlen \<longrightarrow>
         fst p ! (pixelIndex isV ulen vlen u' v' + 3) = alphaByte (cellAt this isV u' v')))"
  have "J ulen res"
    unfolding res_def
  proof (rule fold_upt_rule)
    show "J 0 (px, g, hue)" by (simp add: J_def)
  next
    fix u p assume u: "u < ulen" and J: "J u p"
    obtain q h k where p: "p = (q, h, k)" by (cases p)
    have lq: "length q = ulen * vlen * 4" using J p len by (simp add: J_def)
    obtain hue' g' where sh: "fst (renderColumn_v002 this opts isV sat ulen vlen u p) =
      fst (fold (renderPixel_v002 this opts isV sat hue' ulen vlen u) [0..<vlen] (q, g'))"
      unfolding p using renderColumn_v002_shape by blast
    note row = renderRow_px[OF u lq, where this = this and opts = opts and isV = isV and sat = sat
        and hue = hue' and g = g']
    show "J (Suc u) (renderColumn_v002 this opts isV sat ulen vlen u p)"
      unfolding J_def sh
    proof (intro conjI allI impI)
      show "length (fst (fold (renderPixel_v002 this opts isV sat hue' ulen vlen u) [0..<vlen] (q, g'))) = length px"
        using row(1) lq len by simp
    next
      fix u' v' assume a: "u' < Suc u" "u' < ulen" "v' < vlen"
      show "fst (fold (renderPixel_v002 this opts isV sat hue' ulen vlen u) [0..<vlen] (q, g')) !
              (pixelIndex isV ulen vlen u' v' + 3) = alphaByte (cellAt this isV u' v')"
      proof (cases "u' = u")
        case True
        then show ?thesis using row(3)[OF a(3)] by simp
      next
        case False
        then have "u' < u" using a(1) by simp
        then show ?thesis using row(2)[OF a(2,3) False] J p a by (simp add: J_def)
      qed
    qed
  qed
  then show ?thesis by (simp add: J_def)
qed

lemma renderPixelData_v002_alpha:
  fixes this :: "'a sprite_scheme"
  assumes len: "length (sprite.pixels this) = sprite.width this * sprite.height this * 4"
    and x: "x < sprite.width this" and y: "y < sprite.height this"
  shows "sprite.pixels (fst (renderPixelData_v002 this opts g)) ! ((y * sprite.width this + x) * 4 + 3)
       = alphaByte (getData this x y)"
proof -
  define isV where "isV = (fst (Math_random g) > 1 / 2)"
  define ulen where "ulen = (if isV then sprite.height this else sprite.width this)"
  define vlen where "vlen = (if isV then sprite.width this else sprite.height this)"
  have "\<exists>sat g3 hue. sprite.pixels (fst (renderPixelData_v002 this opts g)) =
     fst (fold (renderColumn_v002 this opts isV sat ulen vlen) [0..<ulen] (sprite.pixels this, g3, hue))"
    unfolding renderPixelData_v002_def isV_def ulen_def vlen_def
    by (cases "fst (Math_random g) > 1 / 2"; simp add: Let_def case_prod_beta; blast)
  then obtain sat g3 hue where r: "sprite.pixels (fst (renderPixelData_v002 this opts g)) =
     fst (fold (renderColumn_v002 this opts isV sat ulen vlen) [0..<ulen] (sprite.pixels this, g3, hue))"
    by blast
  have len': "length (sprite.pixels this) = ulen * vlen * 4"
    using len by (simp add: ulen_def vlen_def mult.commute)
  define u where "u = (if isV then y else x)"
  define v where "v = (if isV then x else y)"
  have uv: "u < ulen" "v < vlen" using x y by (simp_all add: u_def v_def ulen_def vlen_def)
  have "pixelIndex isV ulen vlen u v = (y * sprite.width this + x) * 4"
    by (simp add: pixelIndex_def u_def v_def ulen_def vlen_def)
  moreover have "cellAt this isV u v = getData this x y"
    by (simp add: cellAt_def u_def v_def)
  ultimately show ?thesis
    using renderColumns_px[OF len', where this = this and opts = opts and isV = isV and sat = sat
        and g = g3 and hue = hue] uv unfolding r by metis
qed

lemma renderStep_v001_px:
  "sprite.width (renderStep_v001 x y t) = sprite.width t"
  "sprite.height (renderStep_v001 x y t) = sprite.height t"
  "sprite.data (renderStep_v001 x y t) = sprite.data t"
  "sprite.pixels (renderStep_v001 x y t) =
     (sprite.pixels t)
       [(y * sprite.width t + x) * 4 + 0 := toUint8Clamped ((if getData t x y = Some (- 1) then 0 else 1) * 255),
        (y * sprite.width t + x) * 4 + 1 := toUint8Clamped ((if getData t x y = Some (- 1) then 0 else 1) * 255),
        (y * sprite.width t + x) * 4 + 2 := toUint8Clamped ((if getData t x y = Some (- 1) then 0 else 1) * 255),
        (y * sprite.width t + x) * 4 + 3 := 255]"
  unfolding renderStep_v001_def Let_def by simp_all

lemma renderPixelData_v001_alpha:
  fixes this :: "'a sprite_scheme"
  assumes len: "length (sprite.pixels this) = sprite.width this * sprite.height this * 4"
    and x: "x < sprite.width this" and y: "y < sprite.height this"
  shows "sprite.pixels (renderPixelData_v001 this) ! ((y * sprite.width this + x) * 4 + 3) = 255"
proof -
  define W where "W = sprite.width this"
  define H where "H = sprite.height this"
  define I where "I = (\<lambda>y x (t :: 'a sprite_scheme). sprite.width t = W \<and>
      length (sprite.pixels t) = H * W * 4 \<and>
      (\<forall>x' y'. x' < W \<longrightarrow> y' < H \<longrightarrow> before y x y' x' \<longrightarrow>
          sprite.pixels t ! ((y' * W + x') * 4 + 3) = 255))"
  have "I H 0 (forYX H W renderStep_v001 this)"
  proof (rule forYX_rule)
    show "I 0 0 this" using len by (simp add: I_def W_def H_def before_def mult.commute)
  next
    fix x y t assume y: "y < H" and x: "x < W" and inv: "I y x t"
    have wt: "sprite.width t = W" and lt: "length (sprite.pixels t) = H * W * 4"
      using inv by (simp_all add: I_def)
    define a where "a = toUint8Clamped ((if getData t x y = Some (- 1) then 0 else 1) * 255)"
    have px: "sprite.pixels (renderStep_v001 x y t) =
       (sprite.pixels t)[(y * W + x) * 4 + 0 := a, (y * W + x) * 4 + 1 := a,
                         (y * W + x) * 4 + 2 := a, (y * W + x) * 4 + 3 := 255]"
      unfolding renderStep_v001_px(4) wt a_def ..
    have bound: "(y * W + x) * 4 + 3 < length (sprite.pixels t)"
      using pixelIndex_bound[OF y x, of True] lt by (simp add: pixelIndex_def)
    have here: "sprite.pixels (renderStep_v001 x y t) ! ((y * W + x) * 4 + 3) = 255"
      unfolding px using four_updates(3)[OF bound] by simp
    have other: "sprite.pixels (renderStep_v001 x y t) ! ((y' * W + x') * 4 + 3)
         = sprite.pixels t ! ((y' * W + x') * 4 + 3)"
      if "x' < W" "y' < H" "(y', x') \<noteq> (y, x)" for x' y'
      unfolding px
      using pixelIndex_disjoint[OF y x that(2,1,3), of True] 
      by (intro four_updates(2)) (simp add: pixelIndex_def)
    show "I y (Suc x) (renderStep_v001 x y t)"
      unfolding I_def
    proof (intro conjI allI impI)
      show "sprite.width (renderStep_v001 x y t) = W"
        using wt by (simp add: renderStep_v001_px)
      show "length (sprite.pixels (renderStep_v001 x y t)) = H * W * 4"
        unfolding px using lt by simp
    next
      fix x' y' assume a: "x' < W" "y' < H" "before y (Suc x) y' x'"
      show "sprite.pixels (renderStep_v001 x y t) ! ((y' * W + x') * 4 + 3) = 255"
      proof (cases "(y', x') = (y, x)")
        case True
        then show ?thesis using here by simp
      next
        case False
        then have "before y x y' x'" using a(3) by (auto simp: before_def)
        then show ?thesis using other[OF a(1,2) False] inv a by (simp add: I_def)
      qed
    qed
  next
    fix y t assume "y < H" "I y W t"
    then show "I (Suc y) 0 t"
      unfolding I_def using before_simps(2)[of _ W y] by metis
  qed
  then show ?thesis using x y
    by (simp add: I_def renderPixelData_v001_def W_def H_def before_def)
qed

lemma gridPasses_pixels:
  "sprite.pixels (fst (gridPasses b s g)) = replicate (sprite.width s * sprite.height s * 4) 0"
  by (simp add: gridPasses_def generateRandomSample_eq Let_def generateEdges_dims
        mirrorX_dims mirrorY_dims masked_fields applyMask_fields initData_fields initContext_def)

lemma init_v002_alpha:
  fixes s :: "'a sprite_scheme" and opts g
  defines "t \<equiv> fst (init_v002 s opts g)"
  assumes x: "x < sprite.width t" and y: "y < sprite.height t"
  shows "sprite.pixels t ! ((y * sprite.width t + x) * 4 + 3) = alphaByte (getData t x y)"
proof -
  define p where "p = fst (gridPasses True s g)"
  have t: "t = fst (renderPixelData_v002 p opts (snd (gridPasses True s g)))"
    by (simp add: t_def init_v002_eq p_def case_prod_beta)
  have w: "sprite.width t = sprite.width p" and h: "sprite.height t = sprite.height p"
    and d: "sprite.data t = sprite.data p"
    by (simp_all add: t renderPixelData_v002_fields)
  have len: "length (sprite.pixels p) = sprite.width p * sprite.height p * 4"
    by (simp add: p_def gridPasses_pixels gridPasses_fields)
  have gd: "getData t x y = getData p x y" by (simp add: getData_def w d)
  have xp: "x < sprite.width p" and yp: "y < sprite.height p" using x y w h by simp_all
  show ?thesis
    unfolding gd w unfolding t by (rule renderPixelData_v002_alpha[OF len xp yp])
qed

lemma init_v001_alpha:
  fixes s :: "'a sprite_scheme" and g
  defines "t \<equiv> fst (init_v001 s g)"
  assumes x: "x < sprite.width t" and y: "y < sprite.height t"
  shows "sprite.pixels t ! ((y * sprite.width t + x) * 4 + 3) = 255"
proof -
  define p where "p = fst (gridPasses False s g)"
  have t: "t = renderPixelData_v001 p"
    by (simp add: t_def init_v001_eq p_def case_prod_beta)
  have w: "sprite.width t = sprite.width p" and h: "sprite.height t = sprite.height p"
    by (simp_all add: t renderPixelData_v001_fields)
  have len: "length (sprite.pixels p) = sprite.width p * sprite.height p * 4"
    by (simp add: p_def gridPasses_pixels gridPasses_fields)
  have xp: "x < sprite.width p" and yp: "y < sprite.height p" using x y w h by simp_all
  show ?thesis
    unfolding w unfolding t by (rule renderPixelData_v001_alpha[OF len xp yp])
qed

subsection \<open>Colours, options and constructors\<close>

text \<open>
  The constructors in terms of \<^verbatim>\<open>init\<close>, the options object and its properties, the
  rendering of border cells, and the saturation, which the renderer reads in one place
  only.
\<close>

lemma jsRem_nonneg: "0 \<le> m \<Longrightarrow> jsRem m 6 = m mod 6"
  by (cases "m = 0") (simp_all add: jsRem_def)

lemma options_more:
  fixes t s :: "'a sprite_v002_scheme"
  shows "sprite.more t = sprite.more s \<Longrightarrow> options t = options s"
  by (cases t; cases s) simp

lemma setDefault_filled:
  "setDefault ext p (Some d) = filled ext p d"
  by (cases p) (auto simp add: setDefault_def filled_def accepts_def readProperty_def
      assignProperty_def Let_def)

lemma setDefault_idem:
  "setDefault ext (setDefault ext p d) d = setDefault ext p d"
  by (simp add: setDefault_def readProperty_def assignProperty_def Let_def
      split: property.splits)

lemma setDefaults_fields:
  "extensible (setDefaults obj) = extensible obj"
  "options_obj.colored (setDefaults obj) = filled (extensible obj) (options_obj.colored obj) True"
  "options_obj.edgeBrightness (setDefaults obj) = filled (extensible obj) (options_obj.edgeBrightness obj) (3 / 10)"
  "options_obj.colorVariations (setDefaults obj) = filled (extensible obj) (options_obj.colorVariations obj) (2 / 10)"
  "options_obj.brightnessNoise (setDefaults obj) = filled (extensible obj) (options_obj.brightnessNoise obj) (3 / 10)"
  "options_obj.saturation (setDefaults obj) = filled (extensible obj) (options_obj.saturation obj) (5 / 10)"
  by (simp_all add: setDefaults_def defaults_def setDefault_filled)

lemma setDefaults_idem: "setDefaults (setDefaults obj) = setDefaults obj"
  by (simp add: setDefaults_def setDefault_idem)

lemma Sprite_v002_store:
  "fst (snd (Sprite_v002 m (Some a) st g)) = st\<lparr> objects := (objects st)(a := setDefaults (objects st a)) \<rparr>"
  by (simp add: Sprite_v002_def Let_def case_prod_beta)

lemma Sprite_v002_options:
  "options (fst (Sprite_v002 m (Some a) st g)) = a"
proof -
  define s where "s = \<lparr> sprite.width = mask.width m * (if mask.mirrorX m then 2 else 1),
                   height = mask.height m * (if mask.mirrorY m then 2 else 1),
                   mask = m, data = (\<lambda>_. None), pixels = [], options = a \<rparr>"
  have "fst (Sprite_v002 m (Some a) st g) = fst (init_v002 s (readOptions (setDefaults (objects st a))) g)"
    by (simp add: Sprite_v002_def s_def Let_def case_prod_beta)
  then have "options (fst (Sprite_v002 m (Some a) st g)) = options s"
    using options_more[OF init_v002_grid(1)] by simp
  then show ?thesis by (simp add: s_def)
qed


lemma symmetricX_cong:
  "sprite.width t = sprite.width s \<Longrightarrow> sprite.height t = sprite.height s \<Longrightarrow>
   sprite.data t = sprite.data s \<Longrightarrow> symmetricX t = symmetricX s"
  by (simp add: symmetricX_def getData_def)

lemma symmetricY_cong:
  "sprite.width t = sprite.width s \<Longrightarrow> sprite.height t = sprite.height s \<Longrightarrow>
   sprite.data t = sprite.data s \<Longrightarrow> symmetricY t = symmetricY s"
  by (simp add: symmetricY_def getData_def)

lemma init_v002_symmetricX:
  "mask.mirrorX (mask s) \<Longrightarrow> symmetricX (fst (init_v002 s opts g))"
  using symmetricX_cong[of "fst (init_v002 s opts g)" "fst (gridPasses True s g)"]
    gridPasses_symmetricX[of s True g]
  by (simp add: init_v002_grid gridPasses_fields)

lemma init_v001_symmetricX:
  "mask.mirrorX (mask s) \<Longrightarrow> symmetricX (fst (init_v001 s g))"
  using symmetricX_cong[of "fst (init_v001 s g)" "fst (gridPasses False s g)"]
    gridPasses_symmetricX[of s False g]
  by (simp add: init_v001_grid gridPasses_fields)

lemma init_v002_symmetricY:
  "mask.mirrorY (mask s) \<Longrightarrow> symmetricY (fst (init_v002 s opts g))"
  using symmetricY_cong[of "fst (init_v002 s opts g)" "fst (gridPasses True s g)"]
    gridPasses_symmetricY[of s g]
  by (simp add: init_v002_grid gridPasses_fields)

lemma Math_round_unit:
  assumes "0 \<le> r" "r < 1"
  shows "Math_round r = (if r \<ge> 1 / 2 then 1 else 0)"
  using assms unfolding Math_round_def by (auto simp: floor_eq_iff)

lemma Sprite_v002_dims:
  "sprite.width (fst (Sprite_v002 m oa st g)) = mask.width m * (if mask.mirrorX m then 2 else 1)"
  "sprite.height (fst (Sprite_v002 m oa st g)) = mask.height m * (if mask.mirrorY m then 2 else 1)"
  using Sprite_v002_init[of m oa st] by (auto simp: init_v002_grid)

lemma Sprite_v001_dims:
  "sprite.width (fst (Sprite_v001 m g)) = mask.width m * (if mask.mirrorX m then 2 else 1)"
  "sprite.height (fst (Sprite_v001 m g)) = mask.height m * (if mask.mirrorY m then 2 else 1)"
  using Sprite_v001_init[of m] by (auto simp: init_v001_grid)

lemma pixelColor_saturation [simp]:
  "pixelColor (opts\<lparr> option_values.saturation := v \<rparr>) = pixelColor opts"
  by (simp add: pixelColor_def fun_eq_iff Let_def case_prod_beta cong: if_cong)

lemma renderPixel_v002_saturation [simp]:
  "renderPixel_v002 this (opts\<lparr> option_values.saturation := v \<rparr>) = renderPixel_v002 this opts"
  by (simp add: renderPixel_v002_def fun_eq_iff Let_def case_prod_beta cong: if_cong)

lemma renderColumn_v002_saturation [simp]:
  "renderColumn_v002 this (opts\<lparr> option_values.saturation := v \<rparr>) = renderColumn_v002 this opts"
  by (simp add: renderColumn_v002_def fun_eq_iff Let_def case_prod_beta cong: if_cong)


lemma Sprite_v002_data:
  "sprite.data (fst (Sprite_v002 m (Some a) st g)) =
     sprite.data (fst (gridPasses True
        \<lparr> sprite.width = mask.width m * (if mask.mirrorX m then 2 else 1),
          height = mask.height m * (if mask.mirrorY m then 2 else 1),
          mask = m, data = (\<lambda>_. None), pixels = [], options = a \<rparr> g))"
  by (simp add: Sprite_v002_def Let_def case_prod_beta init_v002_grid)





lemma Sprite_v002_sprite:
  "fst (Sprite_v002 m (Some a) st g)
     = fst (init_v002 \<lparr> sprite.width = mask.width m * (if mask.mirrorX m then 2 else 1),
                   height = mask.height m * (if mask.mirrorY m then 2 else 1),
                   mask = m, data = (\<lambda>_. None), pixels = [], options = a \<rparr>
              (readOptions (setDefaults (objects st a))) g)"
  by (simp add: Sprite_v002_def Let_def case_prod_beta)

















lemma render_uncoloured_border_cell:
  fixes t :: "'a sprite_scheme"
  assumes "sprite.width t = 1" "sprite.height t = 1" "getData t 0 0 = Some (- 1)"
    "sprite.pixels t = [0, 0, 0, 0]"
  shows "sprite.pixels (fst (renderPixelData_v002 t (readOptions frozenObject) g)) = [0, 0, 0, 255]"
  using assms
  by (simp add: renderPixelData_v002_def renderColumn_v002_def renderPixel_v002_def pixelColor_def
      Math_random_def readOptions_def readProperty_def frozenObject_def Let_def)

lemma setDefaults_frozenObject: "setDefaults frozenObject = frozenObject"
  by (simp add: setDefaults_def setDefault_def assignProperty_def readProperty_def frozenObject_def
      Let_def)

lemma Sprite_v002_frozen_border_cell:
  "sprite.pixels (fst (Sprite_v002 borderMask (Some 0) frozenStore exampleRng)) = [0, 0, 0, 255]"
proof -
  define s :: sprite_v002 where "s = \<lparr> sprite.width = mask.width borderMask * (if mask.mirrorX borderMask then 2 else 1),
                   height = mask.height borderMask * (if mask.mirrorY borderMask then 2 else 1),
                   mask = borderMask, data = (\<lambda>_. None), pixels = [], options = 0 \<rparr>"
  define t where "t = fst (gridPasses True s exampleRng)"
  have opts: "readOptions (setDefaults (objects frozenStore 0)) = readOptions frozenObject"
    by (simp add: frozenStore_def setDefaults_frozenObject)
  have e: "fst (Sprite_v002 borderMask (Some 0) frozenStore exampleRng)
      = fst (renderPixelData_v002 t (readOptions frozenObject) (snd (gridPasses True s exampleRng)))"
    unfolding Sprite_v002_sprite opts init_v002_eq s_def[symmetric]
    by (simp add: case_prod_beta t_def)
  have w: "sprite.width t = 1" "sprite.height t = 1"
    by (simp_all add: t_def gridPasses_fields s_def borderMask_def)
  have p: "sprite.pixels t = [0, 0, 0, 0]"
    by (simp add: t_def gridPasses_pixels s_def borderMask_def numeral_eq_Suc)
  have "sprite.data (fst (gridPasses True
      \<lparr> sprite.width = mask.width borderMask * (if mask.mirrorX borderMask then 2 else 1),
                   height = mask.height borderMask * (if mask.mirrorY borderMask then 2 else 1),
                   mask = borderMask, data = (\<lambda>_. None), pixels = [], options = 0 \<rparr> exampleRng)) 0 = Some (- 1)"
    by code_simp
  then have c: "getData t 0 0 = Some (- 1)"
    by (simp add: getData_def t_def s_def)
  show ?thesis unfolding e by (rule render_uncoloured_border_cell[OF w c p])
qed

section \<open>The claims\<close>

subsection \<open>C1: construction of a mask\<close>

text \<open>
  The constructor \<^verbatim>\<open>Mask\<close> validates nothing. With an empty \<^verbatim>\<open>data\<close> for a mask of
  width 2 and height 1, and with the value 7 in \<^verbatim>\<open>data\<close>, it returns the object that holds
  these arguments. The object is usable: a sprite is generated from the mask of width 1
  and height 1 with an empty \<^verbatim>\<open>data\<close>, and its one cell is \<^verbatim>\<open>undefined\<close>.
\<close>

theorem Mask_accepts_invalid_counterexample:
  "length ([] :: int list) \<noteq> 2 * 1 \<and> (7 :: int) \<notin> {- 1, 0, 1, 2}
   \<and> Mask [] 2 1 None None = Inr \<lparr> mask.width = 2, height = 1, data = [], mirrorX = True, mirrorY = True \<rparr>
   \<and> Mask [7] 1 1 None None = Inr \<lparr> mask.width = 1, height = 1, data = [7], mirrorX = True, mirrorY = True \<rparr>
   \<and> Mask [] 1 1 (Some False) (Some False)
        = Inr \<lparr> mask.width = 1, height = 1, data = [], mirrorX = False, mirrorY = False \<rparr>
   \<and> getData (fst (Sprite_v001
         \<lparr> mask.width = 1, height = 1, data = [], mirrorX = False, mirrorY = False \<rparr> (\<lambda>_. 0))) 0 0 = None"
proof -
  have "getData (fst (Sprite_v001
         \<lparr> mask.width = 1, height = 1, data = [], mirrorX = False, mirrorY = False \<rparr> (\<lambda>_. 0))) 0 0 = None"
    by code_simp
  then show ?thesis by (simp add: Mask_def)
qed

text \<open>
  C1, as amended: constructing a mask never fails. For every \<^verbatim>\<open>data\<close>, \<^verbatim>\<open>width\<close> and
  \<^verbatim>\<open>height\<close>, whether the length of \<^verbatim>\<open>data\<close> is \<^verbatim>\<open>width * height\<close> or not and whatever
  integers it holds, the constructor returns no error and returns a mask that holds exactly
  the given \<^verbatim>\<open>data\<close>, \<^verbatim>\<open>width\<close> and \<^verbatim>\<open>height\<close>; \<^verbatim>\<open>mirrorX\<close> and \<^verbatim>\<open>mirrorY\<close> are \<^verbatim>\<open>true\<close> unless
  the caller passed \<^verbatim>\<open>false\<close>.
\<close>

theorem Mask_never_fails:
  "Mask d w h mx my \<noteq> Inl e \<and>
   (\<exists>m. Mask d w h mx my = Inr m \<and> mask.data m = d \<and> mask.width m = w \<and> mask.height m = h
        \<and> mask.mirrorX m = (mx \<noteq> Some False) \<and> mask.mirrorY m = (my \<noteq> Some False))"
  by (auto simp: Mask_def split: option.splits)

subsection \<open>C2: mirror symmetry in \<open>y\<close>\<close>

text \<open>
  Revision v0.0.2 calls \<^verbatim>\<open>mirrorY\<close> under \<^verbatim>\<open>mask.mirrorY\<close>, and the finished grid of every
  mask with \<^verbatim>\<open>mirrorY = true\<close> is symmetric in \<open>y\<close>.
\<close>

lemma mirrorY_symmetry_v002:
  assumes "mask.mirrorY m"
  shows "symmetricY (fst (Sprite_v002 m oa st g))"
  using Sprite_v002_init[of m oa st] init_v002_symmetricY assms by metis

text \<open>
  C2: for every mask with \<^verbatim>\<open>mirrorY = true\<close> the finished grid satisfies
  \<open>cell(x, y) = cell(x, height - 1 - y)\<close>. Revision v0.0.1 calls \<^verbatim>\<open>mirrorX\<close> a second time
  where \<^verbatim>\<open>mirrorY\<close> was meant, and its grid is not symmetric: for the mask of one empty cell
  with \<^verbatim>\<open>mirrorX = false\<close> and \<^verbatim>\<open>mirrorY = true\<close> the sprite is two rows high, the cell
  \<open>(0, 0)\<close> is empty and the mirrored cell \<open>(0, 1)\<close> still holds the border of \<^verbatim>\<open>initData\<close>.
\<close>

theorem init_v001_mirrorY_failing:
  "mask.mirrorY failingMask \<and>
   sprite.height (fst (Sprite_v001 failingMask (\<lambda>_. 0))) = 2 \<and>
   getData (fst (Sprite_v001 failingMask (\<lambda>_. 0))) 0 0 = Some 0 \<and>
   getData (fst (Sprite_v001 failingMask (\<lambda>_. 0))) 0 (2 - 1 - 0) = Some (- 1)"
  by code_simp

subsection \<open>C3: mirror symmetry in \<open>x\<close>\<close>

text \<open>
  C3: for every mask with \<^verbatim>\<open>mirrorX = true\<close> the finished grid of the generated sprite
  satisfies \<open>cell(x, y) = cell(width - 1 - x, y)\<close> at all valid coordinates. This holds in
  both revisions, for every options argument, store and random source.
\<close>

theorem mirrorX_symmetry:
  assumes "mask.mirrorX m"
  shows "symmetricX (fst (Sprite_v002 m oa st g)) \<and> symmetricX (fst (Sprite_v001 m g'))"
  using Sprite_v002_init[of m oa st] Sprite_v001_init[of m]
    init_v002_symmetricX init_v001_symmetricX assms by metis

text \<open>
  The theorem at the example mask: the grid is four cells wide, and the cells \<open>(0, 1)\<close>
  and \<open>(3, 1)\<close>, and \<open>(1, 2)\<close> and \<open>(2, 2)\<close>, are equal.
\<close>

theorem mirrorX_symmetry_witness:
  "mask.mirrorX exampleMask \<and>
   getData (fst (Sprite_v002 exampleMask None emptyStore exampleRng)) 0 1
     = getData (fst (Sprite_v002 exampleMask None emptyStore exampleRng)) 3 1 \<and>
   getData (fst (Sprite_v001 exampleMask exampleRng)) 1 2
     = getData (fst (Sprite_v001 exampleMask exampleRng)) 2 2"
proof -
  have m: "mask.mirrorX exampleMask" by (simp add: exampleMask_def)
  note sym = mirrorX_symmetry[OF m, of None emptyStore exampleRng exampleRng, unfolded symmetricX_def]
  have d2: "sprite.width (fst (Sprite_v002 exampleMask None emptyStore exampleRng)) = 4"
      "sprite.height (fst (Sprite_v002 exampleMask None emptyStore exampleRng)) = 4"
    by (simp_all add: Sprite_v002_dims exampleMask_def)
  have d1: "sprite.width (fst (Sprite_v001 exampleMask exampleRng)) = 4"
      "sprite.height (fst (Sprite_v001 exampleMask exampleRng)) = 4"
    by (simp_all add: Sprite_v001_dims exampleMask_def)
  show ?thesis
    using m sym[THEN conjunct1, rule_format, of 0 1] sym[THEN conjunct2, rule_format, of 1 2]
    by (simp add: d1 d2)
qed

subsection \<open>C4: edge synthesis\<close>

text \<open>
  C4: after \<^verbatim>\<open>generateEdges\<close>, no cell of the grid with value 1 has an orthogonal
  neighbour within the bounds with value 0, and running \<^verbatim>\<open>generateEdges\<close> a second time
  leaves the sprite unchanged. This holds for every grid, whatever its cells hold.
\<close>

theorem generateEdges_outline_idempotent:
  fixes s :: "'a sprite_scheme"
  defines "t \<equiv> generateEdges s"
  shows "(\<forall>x y. x < sprite.width t \<longrightarrow> y < sprite.height t \<longrightarrow> getData t x y = Some 1 \<longrightarrow>
            (int y - 1 \<ge> 0 \<longrightarrow> getData t x (y - 1) \<noteq> Some 0) \<and>
            (y + 1 < sprite.height t \<longrightarrow> getData t x (y + 1) \<noteq> Some 0) \<and>
            (int x - 1 \<ge> 0 \<longrightarrow> getData t (x - 1) y \<noteq> Some 0) \<and>
            (x + 1 < sprite.width t \<longrightarrow> getData t (x + 1) y \<noteq> Some 0))
         \<and> generateEdges t = t"
proof -
  have o: "outlined t" unfolding t_def by (rule outlined_generateEdges)
  have "positive (Some 1)" by (simp add: positive_def)
  then show ?thesis
    using o generateEdges_outlined[OF o] unfolding outlined_def by metis
qed

text \<open>
  The theorem at the row \<open>0 1 0\<close>: the body cell stays, and both of its neighbours are no
  longer empty.
\<close>

theorem generateEdges_outline_idempotent_witness:
  "getData (generateEdges edgeExample) 1 0 = Some 1 \<and>
   getData (generateEdges edgeExample) 0 0 \<noteq> Some 0 \<and>
   getData (generateEdges edgeExample) 2 0 \<noteq> Some 0 \<and>
   generateEdges (generateEdges edgeExample) = generateEdges edgeExample"
proof -
  have c: "getData (generateEdges edgeExample) 1 0 = Some 1" by code_simp
  have d: "sprite.width (generateEdges edgeExample) = 3" "sprite.height (generateEdges edgeExample) = 1"
    by (simp_all add: generateEdges_dims edgeExample_def)
  note e = generateEdges_outline_idempotent[of edgeExample]
  have "getData (generateEdges edgeExample) (1 - 1) 0 \<noteq> Some 0 \<and>
        getData (generateEdges edgeExample) (1 + 1) 0 \<noteq> Some 0"
    using c e[THEN conjunct1, rule_format, of 1 0] by (simp add: d)
  then show ?thesis
    using c e[THEN conjunct2] by (simp add: numeral_2_eq_2)
qed

subsection \<open>C5: the alpha channel\<close>

text \<open>
  Revision v0.0.1 writes the alpha byte 255 for every cell: for the mask of one empty cell
  the pixel of the empty cell \<open>(0, 0)\<close> is opaque.
\<close>

theorem renderPixelData_v001_alpha_counterexample:
  "getData (fst (Sprite_v001 failingMask (\<lambda>_. 0))) 0 0 = Some 0 \<and>
   sprite.pixels (fst (Sprite_v001 failingMask (\<lambda>_. 0))) ! ((0 * 1 + 0) * 4 + 3) = 255"
  by code_simp

text \<open>
  C5, as amended: in revision v0.0.2 the alpha byte of a pixel of the generated sprite is 0
  if and only if the resolved grid cell at that position has value 0, and it is 255 for
  every other cell (so for every cell valued -1 or 1), for every options argument and so
  regardless of \<^verbatim>\<open>colored\<close>. In revision v0.0.1 the alpha byte is 255 at every pixel, whatever
  the cell holds.
\<close>

theorem alpha_channel:
  fixes m :: mask and oa st g g'
  defines "t2 \<equiv> fst (Sprite_v002 m oa st g)"
  defines "t1 \<equiv> fst (Sprite_v001 m g')"
  shows "(x < sprite.width t2 \<longrightarrow> y < sprite.height t2 \<longrightarrow>
            sprite.pixels t2 ! ((y * sprite.width t2 + x) * 4 + 3)
              = (if getData t2 x y = Some 0 then 0 else 255)) \<and>
         (x < sprite.width t1 \<longrightarrow> y < sprite.height t1 \<longrightarrow>
            sprite.pixels t1 ! ((y * sprite.width t1 + x) * 4 + 3) = 255)"
proof -
  obtain s :: sprite_v002 and opts where s: "t2 = fst (init_v002 s opts g)"
    using Sprite_v002_init[of m oa st] unfolding t2_def by blast
  obtain s1 :: sprite where s1: "t1 = fst (init_v001 s1 g')"
    using Sprite_v001_init[of m] unfolding t1_def by blast
  show ?thesis
    unfolding s s1 using init_v002_alpha[of x s opts g y] init_v001_alpha[of x s1 g' y]
    by (simp add: alphaByte_def)
qed

text \<open>
  The theorem at the mask \<open>0 -1\<close>: in v0.0.2 the first pixel is transparent and the
  second is opaque; in v0.0.1 the first pixel is opaque.
\<close>

theorem alpha_channel_witness:
  "sprite.pixels (fst (Sprite_v002 alphaMask (Some 0) exampleStore exampleRng)) ! 3 = 0 \<and>
   sprite.pixels (fst (Sprite_v002 alphaMask (Some 0) exampleStore exampleRng)) ! 7 = 255 \<and>
   sprite.pixels (fst (Sprite_v001 alphaMask exampleRng)) ! 3 = 255"
proof -
  define t2 where "t2 = fst (Sprite_v002 alphaMask (Some 0) exampleStore exampleRng)"
  define t1 where "t1 = fst (Sprite_v001 alphaMask exampleRng)"
  have d2: "sprite.width t2 = 2" "sprite.height t2 = 1"
    by (simp_all add: t2_def Sprite_v002_dims alphaMask_def)
  have d1: "sprite.width t1 = 2" "sprite.height t1 = 1"
    by (simp_all add: t1_def Sprite_v001_dims alphaMask_def)
  have "sprite.data (fst (gridPasses True
        \<lparr> sprite.width = mask.width alphaMask * (if mask.mirrorX alphaMask then 2 else 1),
          height = mask.height alphaMask * (if mask.mirrorY alphaMask then 2 else 1),
          mask = alphaMask, data = (\<lambda>_. None), pixels = [], options = 0 \<rparr> exampleRng)) 0 = Some 0
     \<and> sprite.data (fst (gridPasses True
        \<lparr> sprite.width = mask.width alphaMask * (if mask.mirrorX alphaMask then 2 else 1),
          height = mask.height alphaMask * (if mask.mirrorY alphaMask then 2 else 1),
          mask = alphaMask, data = (\<lambda>_. None), pixels = [], options = 0 \<rparr> exampleRng)) 1 = Some (- 1)"
    by code_simp
  then have c: "getData t2 0 0 = Some 0" "getData t2 1 0 = Some (- 1)"
    by (simp_all add: getData_def t2_def Sprite_v002_data d2[unfolded t2_def])
  have a0: "sprite.pixels t2 ! ((0 * sprite.width t2 + 0) * 4 + 3) = 0"
    using alpha_channel[of 0 alphaMask "Some 0" exampleStore exampleRng 0 exampleRng, THEN conjunct1]
    by (simp add: t2_def[symmetric] d2 c)
  have c': "getData t2 (Suc 0) 0 = Some (- 1)" using c(2) by simp
  have a1: "sprite.pixels t2 ! ((0 * sprite.width t2 + 1) * 4 + 3) = 255"
    using alpha_channel[of 1 alphaMask "Some 0" exampleStore exampleRng 0 exampleRng, THEN conjunct1]
    by (simp add: t2_def[symmetric] d2 c')
  have a2: "sprite.pixels t1 ! ((0 * sprite.width t1 + 0) * 4 + 3) = 255"
    using alpha_channel[of 0 alphaMask "Some 0" exampleStore exampleRng 0 exampleRng, THEN conjunct2]
    by (simp add: t1_def[symmetric] d1)
  show ?thesis using a0 a1 a2 by (simp add: d1 d2 t1_def t2_def)
qed

subsection \<open>C6: masks without stochastic codes\<close>

text \<open>
  C6: for every mask whose cells are all -1 or 0, two generation runs on this mask with any
  two random sources produce the same finished grid: the same width, height and cells.
  This holds in both revisions.
\<close>

theorem generation_deterministic:
  assumes "\<forall>v \<in> set (mask.data m). v = - 1 \<or> v = 0"
  shows "sprite.width (fst (Sprite_v002 m oa st g1)) = sprite.width (fst (Sprite_v002 m oa st g2)) \<and>
         sprite.height (fst (Sprite_v002 m oa st g1)) = sprite.height (fst (Sprite_v002 m oa st g2)) \<and>
         sprite.data (fst (Sprite_v002 m oa st g1)) = sprite.data (fst (Sprite_v002 m oa st g2)) \<and>
         sprite.width (fst (Sprite_v001 m g1)) = sprite.width (fst (Sprite_v001 m g2)) \<and>
         sprite.height (fst (Sprite_v001 m g1)) = sprite.height (fst (Sprite_v001 m g2)) \<and>
         sprite.data (fst (Sprite_v001 m g1)) = sprite.data (fst (Sprite_v001 m g2))"
proof -
  have ns: "\<forall>i. \<not> stochastic ((\<lambda>_. None) i)" by (simp add: stochastic_def)
  obtain s :: sprite_v002 and opts where s:
    "\<And>g. fst (Sprite_v002 m oa st g) = fst (init_v002 s opts g)" "sprite.mask s = m"
    "sprite.data s = (\<lambda>_. None)"
    using Sprite_v002_init[of m oa st] by blast
  have "fst (gridPasses True s g1) = fst (gridPasses True s g2)"
    using gridPasses_deterministic[of s] assms s(2,3) ns by simp
  then have a: "sprite.data (fst (Sprite_v002 m oa st g1)) = sprite.data (fst (Sprite_v002 m oa st g2))"
    by (simp add: s(1) init_v002_grid)
  have b: "sprite.width (fst (Sprite_v002 m oa st g1)) = sprite.width (fst (Sprite_v002 m oa st g2))"
    "sprite.height (fst (Sprite_v002 m oa st g1)) = sprite.height (fst (Sprite_v002 m oa st g2))"
    by (simp_all add: s(1) init_v002_grid)
  obtain s1 :: sprite where s1:
    "\<And>g. fst (Sprite_v001 m g) = fst (init_v001 s1 g)" "sprite.mask s1 = m"
    "sprite.data s1 = (\<lambda>_. None)"
    using Sprite_v001_init[of m] by blast
  have "fst (gridPasses False s1 g1) = fst (gridPasses False s1 g2)"
    using gridPasses_deterministic[of s1] assms s1(2,3) ns by simp
  then have c: "sprite.data (fst (Sprite_v001 m g1)) = sprite.data (fst (Sprite_v001 m g2))"
    by (simp add: s1(1) init_v001_grid)
  have d: "sprite.width (fst (Sprite_v001 m g1)) = sprite.width (fst (Sprite_v001 m g2))"
    "sprite.height (fst (Sprite_v001 m g1)) = sprite.height (fst (Sprite_v001 m g2))"
    by (simp_all add: s1(1) init_v001_grid)
  show ?thesis using a b c d by simp
qed

text \<open>The theorem at a mask of one empty cell, with a constant and an alternating source.\<close>

theorem generation_deterministic_witness:
  "sprite.data (fst (Sprite_v002 smallFixedMask None emptyStore (\<lambda>_. 0)))
     = sprite.data (fst (Sprite_v002 smallFixedMask None emptyStore exampleRng)) \<and>
   sprite.data (fst (Sprite_v001 smallFixedMask (\<lambda>_. 0)))
     = sprite.data (fst (Sprite_v001 smallFixedMask exampleRng)) \<and>
   getData (fst (Sprite_v001 smallFixedMask exampleRng)) 1 0 = Some 0"
proof -
  have h: "\<forall>v \<in> set (mask.data smallFixedMask). v = - 1 \<or> v = 0" by (simp add: smallFixedMask_def)
  have "getData (fst (Sprite_v001 smallFixedMask exampleRng)) 1 0 = Some 0" by code_simp
  then show ?thesis
    using generation_deterministic[OF h, of None emptyStore "\<lambda>_. 0" exampleRng] by simp
qed

subsection \<open>C7: the sampling pass\<close>

text \<open>
  C7: \<^verbatim>\<open>generateRandomSample\<close> maps each cell on its own. Let \<open>r\<close> be the number that
  \<^verbatim>\<open>Math.random()\<close> returns for the cell, a number in \<open>[0, 1)\<close>. A cell holding 1 becomes
  body (1) when \<open>r \<ge> 1/2\<close> and empty (0) otherwise; a cell holding 2 becomes body (1) when
  \<open>r > 1/2\<close> and border (-1) otherwise; a cell holding -1 or 0 is unchanged; so a cell with
  a code in \<open>{-1, 0, 1, 2}\<close> ends in \<open>{-1, 0, 1}\<close>. For a number drawn uniformly from
  \<open>[0, 1)\<close> each of the two outcomes is an interval of length \<open>1/2\<close>: the probability 0.5
  of the claim. The number of a cell is the draw whose index is the count of stochastic
  cells before it in row-major order, so two different stochastic cells never read the
  same draw.
\<close>

theorem generateRandomSample_cells:
  fixes s :: "'a sprite_scheme" and g :: rng and x y :: nat
  defines "n \<equiv> y * sprite.width s + x"
  defines "r \<equiv> g (drawsBefore (sprite.data s) n)"
  defines "s' \<equiv> fst (generateRandomSample (s, g))"
  assumes draws: "\<forall>k. 0 \<le> g k \<and> g k < 1"
    and x: "x < sprite.width s" and y: "y < sprite.height s"
  shows "(getData s x y = Some 1 \<longrightarrow> getData s' x y = (if r \<ge> 1 / 2 then Some 1 else Some 0)) \<and>
         (getData s x y = Some 2 \<longrightarrow> getData s' x y = (if r > 1 / 2 then Some 1 else Some (- 1))) \<and>
         (getData s x y = Some (- 1) \<or> getData s x y = Some 0 \<longrightarrow> getData s' x y = getData s x y) \<and>
         (getData s x y \<in> {Some (- 1), Some 0, Some 1, Some 2} \<longrightarrow>
            getData s' x y \<in> {Some (- 1), Some 0, Some 1}) \<and>
         (\<forall>x' y'. x' < sprite.width s \<longrightarrow> y' < sprite.height s \<longrightarrow> (x', y') \<noteq> (x, y) \<longrightarrow>
            stochastic (getData s x y) \<longrightarrow> stochastic (getData s x' y') \<longrightarrow>
            drawsBefore (sprite.data s) (y' * sprite.width s + x') \<noteq> drawsBefore (sprite.data s) n)"
proof -
  have nlt: "n < sprite.height s * sprite.width s"
  proof -
    have "n < y * sprite.width s + sprite.width s" using x by (simp add: n_def)
    also have "\<dots> = Suc y * sprite.width s" by simp
    also have "\<dots> \<le> sprite.height s * sprite.width s" using y by (intro mult_le_mono1) simp
    finally show ?thesis .
  qed
  have get': "getData s' x y = sampleCell (getData s x y) r"
    unfolding s'_def r_def n_def using nlt
    by (simp add: generateRandomSample_eq getData_def sampled_def n_def)
  have rr: "0 \<le> r" "r < 1" using draws by (simp_all add: r_def)
  have cells: "(getData s x y = Some 1 \<longrightarrow> getData s' x y = (if r \<ge> 1 / 2 then Some 1 else Some 0)) \<and>
         (getData s x y = Some 2 \<longrightarrow> getData s' x y = (if r > 1 / 2 then Some 1 else Some (- 1))) \<and>
         (getData s x y = Some (- 1) \<or> getData s x y = Some 0 \<longrightarrow> getData s' x y = getData s x y) \<and>
         (getData s x y \<in> {Some (- 1), Some 0, Some 1, Some 2} \<longrightarrow>
            getData s' x y \<in> {Some (- 1), Some 0, Some 1})"
    unfolding get' sampleCell_def using Math_round_unit[OF rr] by auto
  have distinct: "drawsBefore (sprite.data s) (y' * sprite.width s + x') \<noteq> drawsBefore (sprite.data s) n"
    if "x' < sprite.width s" "(x', y') \<noteq> (x, y)" "stochastic (getData s x y)"
       "stochastic (getData s x' y')" for x' y'
  proof -
    define n' where "n' = y' * sprite.width s + x'"
    have "n' \<noteq> n" using cell_index_inj[OF that(1) x, of y' y] that(2) by (auto simp: n'_def n_def)
    then consider "n' < n" | "n < n'" by arith
    then show ?thesis
    proof cases
      case 1
      then show ?thesis
        using drawsBefore_strict[of n' n "sprite.data s"] that(4)
        by (simp add: getData_def n'_def)
    next
      case 2
      then show ?thesis
        using drawsBefore_strict[of n n' "sprite.data s"] that(3)
        by (simp add: getData_def n'_def n_def)
    qed
  qed
  show ?thesis using cells distinct by blast
qed

text \<open>
  The theorem at the row of the codes \<open>1 2\<close> with the draws \<open>3/4\<close> and \<open>1/4\<close>: the first
  cell becomes body and the second becomes border.
\<close>

theorem generateRandomSample_cells_witness:
  "getData (fst (generateRandomSample (sampleExample, exampleRng))) 0 0 = Some 1 \<and>
   getData (fst (generateRandomSample (sampleExample, exampleRng))) 1 0 = Some (- 1)"
proof -
  have draws: "\<forall>k. 0 \<le> exampleRng k \<and> exampleRng k < 1" by (simp add: exampleRng_def)
  have a: "getData sampleExample 0 0 = Some 1" "getData sampleExample 1 0 = Some 2"
    by (simp_all add: sampleExample_def getData_def)
  have w: "0 < sprite.width sampleExample" "1 < sprite.width sampleExample" "0 < sprite.height sampleExample"
    by (simp_all add: sampleExample_def)
  have b: "exampleRng (drawsBefore (sprite.data sampleExample) (0 * sprite.width sampleExample + 0)) = 3 / 4"
     "exampleRng (drawsBefore (sprite.data sampleExample) (0 * sprite.width sampleExample + 1)) = 1 / 4"
    by (simp_all add: sampleExample_def stochastic_def exampleRng_def)
  note c0 = generateRandomSample_cells[OF draws w(1) w(3), THEN conjunct1, rule_format, OF a(1)]
  note c1 = generateRandomSample_cells[OF draws w(2) w(3), THEN conjunct2, THEN conjunct1, rule_format, OF a(2)]
  show ?thesis
    using c0 c1 unfolding b by simp
qed

subsection \<open>C8: options outside \<open>[0, 1]\<close>\<close>




subsection \<open>C9: the conversion from HSL to RGB\<close>

text \<open>
  C9: with \<open>i = \<lfloor>h * 6\<rfloor>\<close>, \<open>f\<close> the fractional part of \<open>h * 6\<close>, \<open>p = l (1 - s)\<close>,
  \<open>q = l (1 - f s)\<close> and \<open>t = l (1 - (1 - f) s)\<close>, \<^verbatim>\<open>hslToRgb\<close> assigns \<open>(r, g, b)\<close> by the
  sextant \<^verbatim>\<open>i % 6\<close>: 0 gives \<open>(l, t, p)\<close>, 1 gives \<open>(q, l, p)\<close>, 2 gives \<open>(p, l, t)\<close>, 3 gives
  \<open>(p, q, l)\<close>, 4 gives \<open>(t, p, l)\<close> and 5 gives \<open>(l, p, q)\<close>; nothing else of the result
  object changes. For a hue that is not negative, as every hue that \<^verbatim>\<open>Math.random()\<close>
  returns, \<^verbatim>\<open>i % 6\<close> is \<open>i mod 6\<close>. The arithmetic is that of the real numbers.
\<close>

theorem hslToRgb_sextants:
  fixes h s l :: real and result :: "'a rgb_scheme"
  defines "i \<equiv> \<lfloor>h * 6\<rfloor>"
  defines "f \<equiv> frac (h * 6)"
  defines "p \<equiv> l * (1 - s)"
  defines "q \<equiv> l * (1 - f * s)"
  defines "t \<equiv> l * (1 - (1 - f) * s)"
  defines "c \<equiv> hslToRgb h s l result"
  shows "(jsRem i 6 = 0 \<longrightarrow> (rgb_r c, rgb_g c, rgb_b c) = (l, t, p)) \<and>
         (jsRem i 6 = 1 \<longrightarrow> (rgb_r c, rgb_g c, rgb_b c) = (q, l, p)) \<and>
         (jsRem i 6 = 2 \<longrightarrow> (rgb_r c, rgb_g c, rgb_b c) = (p, l, t)) \<and>
         (jsRem i 6 = 3 \<longrightarrow> (rgb_r c, rgb_g c, rgb_b c) = (p, q, l)) \<and>
         (jsRem i 6 = 4 \<longrightarrow> (rgb_r c, rgb_g c, rgb_b c) = (t, p, l)) \<and>
         (jsRem i 6 = 5 \<longrightarrow> (rgb_r c, rgb_g c, rgb_b c) = (l, p, q)) \<and>
         rgb.more c = rgb.more result \<and>
         (0 \<le> h \<longrightarrow> jsRem i 6 = i mod 6)"
proof -
  have "0 \<le> h \<Longrightarrow> 0 \<le> i" by (simp add: i_def)
  then have "0 \<le> h \<longrightarrow> jsRem i 6 = i mod 6"
    using jsRem_nonneg by blast
  moreover have "f = h * 6 - of_int \<lfloor>h * 6\<rfloor>" by (simp add: f_def frac_def)
  ultimately show ?thesis
    unfolding c_def hslToRgb_def Let_def p_def q_def t_def i_def
    by simp
qed

text \<open>The theorem at \<open>h = 7/12\<close>, \<open>s = 1/2\<close>, \<open>l = 1\<close>: sextant 3 and \<open>(p, q, l)\<close>.\<close>

theorem hslToRgb_sextants_witness:
  "jsRem \<lfloor>(7 / 12 :: real) * 6\<rfloor> 6 = 3 \<and>
   hslToRgb (7 / 12) (1 / 2) 1 \<lparr> rgb_r = 0, rgb_g = 0, rgb_b = 0 \<rparr>
     = \<lparr> rgb_r = 1 / 2, rgb_g = 3 / 4, rgb_b = 1 \<rparr> \<and>
   \<lfloor>(7 / 12 :: real) * 6\<rfloor> mod 6 = 3"
proof -
  have f: "\<lfloor>(7 / 12 :: real) * 6\<rfloor> = 3" by simp
  have fr: "frac (7 / 2 :: real) = 1 / 2" by (simp add: frac_def)
  have k: "jsRem 3 6 = 3" by (simp add: jsRem_def)
  note h = hslToRgb_sextants[of "7 / 12" "1 / 2" 1 "\<lparr> rgb_r = 0, rgb_g = 0, rgb_b = 0 \<rparr>"]
  have "rgb_r (hslToRgb (7 / 12) (1 / 2) 1 \<lparr> rgb_r = 0, rgb_g = 0, rgb_b = 0 \<rparr>) = 1 / 2 \<and>
        rgb_g (hslToRgb (7 / 12) (1 / 2) 1 \<lparr> rgb_r = 0, rgb_g = 0, rgb_b = 0 \<rparr>) = 3 / 4 \<and>
        rgb_b (hslToRgb (7 / 12) (1 / 2) 1 \<lparr> rgb_r = 0, rgb_g = 0, rgb_b = 0 \<rparr>) = 1"
    using h by (simp add: fr k)
  moreover have "rgb.more (hslToRgb (7 / 12) (1 / 2) 1 \<lparr> rgb_r = 0, rgb_g = 0, rgb_b = 0 \<rparr>) = ()"
    by simp
  ultimately show ?thesis using h by (simp add: rgb.equality k)
qed

subsection \<open>C10: the options object of the caller\<close>

text \<open>
  The constructor does not write into an object that does not accept the assignment. With
  a frozen empty options object, \<^verbatim>\<open>new Sprite(mask, Object.freeze({}))\<close>, the five
  assignments are dropped: the constructor returns, the object is as it was, its
  \<^verbatim>\<open>saturation\<close> still reads \<^verbatim>\<open>undefined\<close> and not the default 0.5, and the renderer, which
  reads \<^verbatim>\<open>colored\<close> as \<^verbatim>\<open>undefined\<close>, paints the border cell black.
\<close>

theorem Sprite_v002_frozen_options_counterexample:
  "readProperty (options_obj.saturation (objects frozenStore 0)) = None \<and>
   objects (fst (snd (Sprite_v002 borderMask (Some 0) frozenStore exampleRng))) 0 = objects frozenStore 0 \<and>
   readProperty (options_obj.saturation
       (objects (fst (snd (Sprite_v002 borderMask (Some 0) frozenStore exampleRng))) 0)) = None \<and>
   option_values.saturation defaults = Some (5 / 10) \<and>
   sprite.pixels (fst (Sprite_v002 borderMask (Some 0) frozenStore exampleRng)) = [0, 0, 0, 255]"
proof -
  have o: "objects frozenStore 0 = frozenObject" by (simp add: frozenStore_def)
  have r: "readProperty (options_obj.saturation frozenObject) = None"
    by (simp add: frozenObject_def readProperty_def)
  have d: "option_values.saturation defaults = Some (5 / 10)" by (simp add: defaults_def)
  show ?thesis
    by (simp add: Sprite_v002_store Sprite_v002_frozen_border_cell o setDefaults_frozenObject r d)
qed

text \<open>
  C10, as amended: constructing a sprite (v0.0.2) with an options object assigns into that
  object. The sprite refers to the object of the caller. After the construction each of
  the five properties of this object is writable and holds its default (\<^verbatim>\<open>true\<close>, 0.3, 0.2,
  0.3, 0.5) if it read \<^verbatim>\<open>undefined\<close> before and the object accepts the assignment (the
  property is present and writable, or absent from an extensible object); otherwise the
  property is as it was. The object is as extensible as it was; no other object of the
  store changes; and a second construction with the same object leaves the store as it
  is.
\<close>

theorem Sprite_v002_fills_writable_options:
  fixes m m' :: mask and a :: nat and st :: store and g g' :: rng
  defines "old \<equiv> objects st a"
  defines "st' \<equiv> fst (snd (Sprite_v002 m (Some a) st g))"
  shows "options (fst (Sprite_v002 m (Some a) st g)) = a \<and>
     options_obj.colored (objects st' a) = filled (extensible old) (options_obj.colored old) True \<and>
     options_obj.edgeBrightness (objects st' a) =
        filled (extensible old) (options_obj.edgeBrightness old) (3 / 10) \<and>
     options_obj.colorVariations (objects st' a) =
        filled (extensible old) (options_obj.colorVariations old) (2 / 10) \<and>
     options_obj.brightnessNoise (objects st' a) =
        filled (extensible old) (options_obj.brightnessNoise old) (3 / 10) \<and>
     options_obj.saturation (objects st' a) =
        filled (extensible old) (options_obj.saturation old) (5 / 10) \<and>
     extensible (objects st' a) = extensible old \<and>
     (\<forall>b. b \<noteq> a \<longrightarrow> objects st' b = objects st b) \<and>
     fresh st' = fresh st \<and>
     fst (snd (Sprite_v002 m' (Some a) st' g')) = st'"
  unfolding st'_def old_def Sprite_v002_store
  by (simp add: Sprite_v002_options setDefaults_fields setDefaults_idem)

text \<open>
  The theorem at an ordinary object with only \<^verbatim>\<open>saturation\<close> set: the four other properties
  are filled in, and the object at another address is untouched. And at the object that
  is not extensible and partly read-only: only \<^verbatim>\<open>colorVariations\<close> is filled in.
\<close>

theorem Sprite_v002_fills_writable_options_witness:
  "options (fst (Sprite_v002 alphaMask (Some 0) exampleStore exampleRng)) = 0 \<and>
   objects (fst (snd (Sprite_v002 alphaMask (Some 0) exampleStore exampleRng))) 0
     = \<lparr> extensible = True, colored = Present True (Some True),
         edgeBrightness = Present True (Some (3 / 10)), colorVariations = Present True (Some (2 / 10)),
         brightnessNoise = Present True (Some (3 / 10)), saturation = Present True (Some (9 / 10)) \<rparr> \<and>
   objects (fst (snd (Sprite_v002 alphaMask (Some 0) exampleStore exampleRng))) 1
     = objects exampleStore 1 \<and>
   objects (fst (snd (Sprite_v002 alphaMask (Some 0) lockedStore exampleRng))) 0
     = \<lparr> extensible = False, colored = Absent, edgeBrightness = Present False None,
         colorVariations = Present True (Some (2 / 10)), brightnessNoise = Present True (Some 1),
         saturation = Present False (Some 2) \<rparr>"
proof -
  note k = Sprite_v002_fills_writable_options[of alphaMask 0 lockedStore exampleRng]
  have locked: "objects lockedStore 0 = lockedObject"
    by (simp add: lockedStore_def)
  have l: "objects (fst (snd (Sprite_v002 alphaMask (Some 0) lockedStore exampleRng))) 0
     = \<lparr> extensible = False, colored = Absent, edgeBrightness = Present False None,
         colorVariations = Present True (Some (2 / 10)), brightnessNoise = Present True (Some 1),
         saturation = Present False (Some 2) \<rparr>"
    using k by (simp add: locked lockedObject_def options_obj.equality filled_def accepts_def
        readProperty_def)
  note h = Sprite_v002_fills_writable_options[of alphaMask 0 exampleStore exampleRng]
  have old: "objects exampleStore 0 = emptyObject\<lparr> options_obj.saturation := Present True (Some (9 / 10)) \<rparr>"
    by (simp add: exampleStore_def)
  have "(1::nat) \<noteq> 0" by simp
  then have "objects (fst (snd (Sprite_v002 alphaMask (Some 0) exampleStore exampleRng))) 1
     = objects exampleStore 1"
    using h by blast
  then show ?thesis
    using h l by (simp add: old emptyObject_def options_obj.equality filled_def accepts_def readProperty_def)
qed

end
